theory Spec2Isabelle
  imports Main "HOL-Library.Sublist"
begin

section \<open>Values and errors of the Python program\<close>

text \<open>
  The program is \<^verbatim>\<open>ai-powerbi-agent.py\<close>: a class \<^verbatim>\<open>PowerBIAIAgent\<close> with the methods
  \<^verbatim>\<open>connect_to_model\<close>, \<^verbatim>\<open>analyze_measure_with_ai\<close>, \<^verbatim>\<open>analyze_tmdl_changes\<close>,
  \<^verbatim>\<open>auto_document_measures\<close>, \<^verbatim>\<open>create_backup_with_changelog\<close>, and the coroutine
  \<^verbatim>\<open>main\<close>. Everything the program handles after \<^verbatim>\<open>json.loads\<close> is a JSON value, so
  Python's \<^verbatim>\<open>None\<close>, \<^verbatim>\<open>dict\<close>, \<^verbatim>\<open>list\<close> and \<^verbatim>\<open>str\<close> are the constructors
  of one datatype. A \<^verbatim>\<open>dict\<close> is the list of its items in insertion order, looked up by
  key. JSON numbers are integers here: the program only ever tests a number for truth.
\<close>

datatype json =
    JNull
  | JBool bool
  | JNum int
  | JStr string
  | JArr "json list"
  | JObj "(string \<times> json) list"

datatype py_error =
    KeyError string
  | TypeError
  | AttributeError
  | IndexError
  | JSONDecodeError
  | ServiceError string
  | ToolError string
  | ClosedResourceError
  | GitCommandError
  | FileExistsError
  | FileNotFoundError
  | NotADirectoryError
  | IsADirectoryError
  | ShutilError

text \<open>\<^verbatim>\<open>not x\<close> is \<open>\<not> truthy x\<close>.\<close>

fun truthy :: "json \<Rightarrow> bool" where
  "truthy JNull = False"
| "truthy (JBool b) = b"
| "truthy (JNum n) = (n \<noteq> 0)"
| "truthy (JStr s) = (s \<noteq> [])"
| "truthy (JArr xs) = (xs \<noteq> [])"
| "truthy (JObj kvs) = (kvs \<noteq> [])"

text \<open>\<^verbatim>\<open>x[key]\<close> with a string key: only a \<^verbatim>\<open>dict\<close> accepts it.\<close>

fun subscript :: "json \<Rightarrow> string \<Rightarrow> py_error + json" where
  "subscript (JObj kvs) k = (case map_of kvs k of None \<Rightarrow> Inl (KeyError k) | Some v \<Rightarrow> Inr v)"
| "subscript _ k = Inl TypeError"

text \<open>\<^verbatim>\<open>x.get(key, default)\<close>: only a \<^verbatim>\<open>dict\<close> has the method.\<close>

fun py_get :: "json \<Rightarrow> string \<Rightarrow> json \<Rightarrow> py_error + json" where
  "py_get (JObj kvs) k d = (case map_of kvs k of None \<Rightarrow> Inr d | Some v \<Rightarrow> Inr v)"
| "py_get _ k d = Inl AttributeError"

text \<open>
  \<^verbatim>\<open>for x in v\<close>: a list yields its elements, a \<^verbatim>\<open>dict\<close> its keys, a \<^verbatim>\<open>str\<close> its
  characters; nothing else is iterable.
\<close>

fun py_iter :: "json \<Rightarrow> py_error + json list" where
  "py_iter (JArr xs) = Inr xs"
| "py_iter (JObj kvs) = Inr (map (\<lambda>kv. JStr (fst kv)) kvs)"
| "py_iter (JStr s) = Inr (map (\<lambda>c. JStr [c]) s)"
| "py_iter _ = Inl TypeError"

text \<open>\<^verbatim>\<open>v + "..."\<close>: only a \<^verbatim>\<open>str\<close> can be concatenated with a \<^verbatim>\<open>str\<close>.\<close>

fun py_add_str :: "json \<Rightarrow> string \<Rightarrow> py_error + string" where
  "py_add_str (JStr s) t = Inr (s @ t)"
| "py_add_str _ t = Inl TypeError"

text \<open>
  The text of a response (\<^verbatim>\<open>response.content[0].text\<close>) is represented by what
  \<^verbatim>\<open>json.loads\<close> makes of it: there is no text item, or the text is not JSON, or it
  encodes a value.
\<close>

datatype content = Blank | Malformed | Encoded json

fun loads_text :: "content \<Rightarrow> py_error + json" where
  "loads_text Blank = Inl IndexError"
| "loads_text Malformed = Inl JSONDecodeError"
| "loads_text (Encoded j) = Inr j"

definition bind_py :: "py_error + 'a \<Rightarrow> ('a \<Rightarrow> py_error + 'b) \<Rightarrow> py_error + 'b" where
  "bind_py r f = (case r of Inl e \<Rightarrow> Inl e | Inr x \<Rightarrow> f x)"


section \<open>The world the program runs in\<close>

subsection \<open>Time\<close>

record datetime =
  dt_year :: nat
  dt_month :: nat
  dt_day :: nat
  dt_hour :: nat
  dt_minute :: nat
  dt_second :: nat
  dt_microsecond :: nat

definition digit :: "nat \<Rightarrow> char" where
  "digit n = ''0123456789'' ! (n mod 10)"

definition pad2 :: "nat \<Rightarrow> string" where
  "pad2 n = [digit (n div 10), digit n]"

definition pad4 :: "nat \<Rightarrow> string" where
  "pad4 n = [digit (n div 1000), digit (n div 100), digit (n div 10), digit n]"

text \<open>\<^verbatim>\<open>f"{t:%Y%m%d_%H%M%S}"\<close> and \<^verbatim>\<open>f"{t:%Y-%m-%d %H:%M:%S}"\<close>.\<close>

definition stamp_compact :: "datetime \<Rightarrow> string" where
  "stamp_compact t =
     pad4 (dt_year t) @ pad2 (dt_month t) @ pad2 (dt_day t) @ ''_'' @
     pad2 (dt_hour t) @ pad2 (dt_minute t) @ pad2 (dt_second t)"

definition stamp_long :: "datetime \<Rightarrow> string" where
  "stamp_long t =
     pad4 (dt_year t) @ ''-'' @ pad2 (dt_month t) @ ''-'' @ pad2 (dt_day t) @ '' '' @
     pad2 (dt_hour t) @ '':'' @ pad2 (dt_minute t) @ '':'' @ pad2 (dt_second t)"

subsection \<open>Files\<close>

text \<open>
  A path is the list of its components, absolute; the program's relative paths are
  resolved against the working directory. The file system is an association list from
  paths to nodes, read with \<^const>\<open>map_of\<close>.
\<close>

type_synonym path = "string list"

datatype node = Dir | File string

type_synonym filesystem = "(path \<times> node) list"

primrec put :: "path \<Rightarrow> node \<Rightarrow> filesystem \<Rightarrow> filesystem" where
  "put p n [] = [(p, n)]"
| "put p n (e # es) = (if fst e = p then (p, n) # es else e # put p n es)"

text \<open>\<open>below d p\<close> is the part of \<open>p\<close> under the directory \<open>d\<close>.\<close>

fun below :: "path \<Rightarrow> path \<Rightarrow> path option" where
  "below [] p = Some p"
| "below (d # ds) [] = None"
| "below (d # ds) (x # xs) = (if d = x then below ds xs else None)"

text \<open>
  \<^verbatim>\<open>Path.mkdir(parents=True, exist_ok=True)\<close> and \<^verbatim>\<open>os.makedirs(p, exist_ok=True)\<close>,
  for the components \<open>cs\<close> under an existing directory \<open>base\<close>: an existing directory is
  accepted, a file in the way is an error.
\<close>

fun makedirs :: "path \<Rightarrow> path \<Rightarrow> filesystem \<Rightarrow> (py_error + unit) \<times> filesystem" where
  "makedirs base [] fs = (Inr (), fs)"
| "makedirs base (c # cs) fs =
     (case map_of fs (base @ [c]) of
        Some (File x) \<Rightarrow> (Inl (if cs = [] then FileExistsError else NotADirectoryError), fs)
      | Some Dir \<Rightarrow> makedirs (base @ [c]) cs fs
      | None \<Rightarrow> makedirs (base @ [c]) cs (put (base @ [c]) Dir fs))"

text \<open>
  \<^verbatim>\<open>shutil.copytree(src, dst, dirs_exist_ok=True)\<close>. The entries of the source tree
  are the nodes strictly under \<open>src\<close>. For each entry at \<open>src @ rest\<close>:
  a directory is created at \<open>dst @ rest\<close> unless a file is there (an error, and nothing
  under it is copied); a file is written to \<open>dst @ rest\<close>, replacing a file there; when
  \<open>dst @ rest\<close> is a directory, \<^verbatim>\<open>copy2\<close> writes into it under the file's own name.
  Errors are collected, the other entries are still copied, and \<^verbatim>\<open>shutil.Error\<close> is
  raised at the end.
\<close>

definition tree_entries :: "filesystem \<Rightarrow> path \<Rightarrow> (path \<times> node) list" where
  "tree_entries fs src =
     concat (map (\<lambda>(p, n). case below src p of
                              Some (c # cs) \<Rightarrow> if map_of fs p = Some n then [(c # cs, n)] else []
                            | _ \<Rightarrow> []) fs)"

definition is_file :: "filesystem \<Rightarrow> path \<Rightarrow> bool" where
  "is_file fs p = (case map_of fs p of Some (File x) \<Rightarrow> True | _ \<Rightarrow> False)"

definition blocked :: "filesystem \<Rightarrow> path \<Rightarrow> path \<Rightarrow> bool" where
  "blocked fs dst rest =
     list_ex (\<lambda>q. q \<noteq> [] \<and> q \<noteq> rest \<and> is_file fs (dst @ q)) (prefixes rest)"

datatype copy_step = Write path node | Clash path | Skip

definition copy_entry :: "filesystem \<Rightarrow> path \<Rightarrow> path \<times> node \<Rightarrow> copy_step" where
  "copy_entry fs dst e =
     (let rest = fst e in
      if blocked fs dst rest then Skip
      else case snd e of
        Dir \<Rightarrow> (case map_of fs (dst @ rest) of
                  Some (File x) \<Rightarrow> Clash (dst @ rest)
                | _ \<Rightarrow> Write (dst @ rest) Dir)
      | File c \<Rightarrow> (case map_of fs (dst @ rest) of
                  Some Dir \<Rightarrow> (case map_of fs (dst @ rest @ [last rest]) of
                                 Some Dir \<Rightarrow> Clash (dst @ rest @ [last rest])
                               | _ \<Rightarrow> Write (dst @ rest @ [last rest]) (File c))
                | _ \<Rightarrow> Write (dst @ rest) (File c)))"

fun apply_step :: "copy_step \<Rightarrow> filesystem \<Rightarrow> filesystem" where
  "apply_step (Write p n) fs = put p n fs"
| "apply_step _ fs = fs"

fun is_clash :: "copy_step \<Rightarrow> bool" where
  "is_clash (Clash p) = True"
| "is_clash _ = False"

definition copytree_fs ::
  "path \<Rightarrow> path \<Rightarrow> path \<Rightarrow> filesystem \<Rightarrow> (py_error + unit) \<times> filesystem" where
  "copytree_fs base src dst fs =
     (case map_of fs (base @ src) of
        None \<Rightarrow> (Inl FileNotFoundError, fs)
      | Some (File x) \<Rightarrow> (Inl NotADirectoryError, fs)
      | Some Dir \<Rightarrow>
          (case makedirs base dst fs of
             (Inl e, fs1) \<Rightarrow> (Inl e, fs1)
           | (Inr u, fs1) \<Rightarrow>
               (let steps = map (copy_entry fs1 (base @ dst)) (tree_entries fs (base @ src));
                    fs2 = fold apply_step steps fs1
                in (if list_ex is_clash steps then Inl ShutilError else Inr (), fs2))))"

subsection \<open>The repository\<close>

text \<open>
  A commit is the snapshot of its files. \<^verbatim>\<open>git diff A B\<close> between two commits is a
  function of the two snapshots; how git renders it as text is the parameter
  \<open>diff_text\<close> of the world. The index is \<open>staged\<close>. Two things are git's own business
  and are parameters of the repository: the paths that \<^verbatim>\<open>.gitignore\<close> excludes
  (\<open>ignored\<close>), and the tree that \<^verbatim>\<open>git commit\<close> records when it is given pathspecs, from
  the pathspecs and the files of the working directory, or nothing when a pathspec matches
  no file (\<open>pathspec_tree\<close>).
\<close>

type_synonym snapshot = "(path \<times> string) list"

record repository =
  commits :: "snapshot list"
  staged :: snapshot
  ignored :: "path \<Rightarrow> bool"
  pathspec_tree :: "json list \<Rightarrow> snapshot \<Rightarrow> snapshot option"

definition rev_parse :: "repository \<Rightarrow> string \<Rightarrow> snapshot option" where
  "rev_parse r ref =
     (if ref = ''HEAD'' then (case commits r of c # cs \<Rightarrow> Some c | _ \<Rightarrow> None)
      else if ref = ''HEAD~1'' then (case commits r of c # p # cs \<Rightarrow> Some p | _ \<Rightarrow> None)
      else None)"

definition worktree :: "path \<Rightarrow> filesystem \<Rightarrow> snapshot" where
  "worktree base fs =
     concat (map (\<lambda>(p, n). case (below base p, n) of
                              (Some rest, File c) \<Rightarrow> if map_of fs p = Some n then [(rest, c)] else []
                            | _ \<Rightarrow> []) fs)"

subsection \<open>The model server and the reasoning service\<close>

text \<open>
  The MCP server is reached through one session: the transport is started, the session
  initialised, and tools are called by name with a JSON argument. What the server answers,
  and what it does to its model and to the files it exports, is the parameter \<open>server\<close>
  of the world; it is told whether the session is open when the request is made. The
  reasoning service is the parameter \<open>ai\<close>: its answer may depend on the prompt and on
  how many requests came before, since equal prompts need not get equal answers. A prompt
  is the fixed template of the method with its arguments filled in, so it is represented
  by the method and its arguments.
\<close>

datatype rpc = Spawn string | Initialize | CallTool string json

datatype prompt = MeasurePrompt json json | ChangesPrompt string

datatype message =
    Connecting
  | AutoDocumenting
  | Documented json
  | NoChanges
  | BackupCreated path
  | ChangelogAt path
  | Complete

datatype event =
    SessionEntered
  | SessionExited
  | Rpc bool rpc
  | AICalled prompt
  | GitDiff string string
  | GitAdd string
  | GitCommit json
  | Mkdir path
  | Copytree path path
  | Opened path
  | Printed message

record 'r world =
  cwd :: path
  fs :: filesystem
  repo :: repository
  diff_text :: "snapshot \<Rightarrow> snapshot \<Rightarrow> string"
  remote :: 'r
  server :: "bool \<Rightarrow> rpc \<Rightarrow> 'r \<Rightarrow> filesystem \<Rightarrow> (py_error + content) \<times> 'r \<times> filesystem"
  session_open :: bool
  ai :: "nat \<Rightarrow> prompt \<Rightarrow> py_error + content"
  ai_calls :: nat
  clock :: "nat \<Rightarrow> datetime"
  clock_reads :: nat
  trace :: "event list"

text \<open>
  A statement of the program takes the world and either raises or returns a value, in
  both cases with the world it leaves behind.
\<close>

type_synonym ('a, 'r) run = "'r world \<Rightarrow> (py_error + 'a) \<times> 'r world"

definition ret :: "'a \<Rightarrow> ('a, 'r) run" where
  "ret x = (\<lambda>w. (Inr x, w))"

definition pure_py :: "py_error + 'a \<Rightarrow> ('a, 'r) run" where
  "pure_py r = (\<lambda>w. (r, w))"

definition bind_run :: "('a, 'r) run \<Rightarrow> ('a \<Rightarrow> ('b, 'r) run) \<Rightarrow> ('b, 'r) run" where
  "bind_run m f = (\<lambda>w. case m w of (Inl e, w') \<Rightarrow> (Inl e, w') | (Inr x, w') \<Rightarrow> f x w')"

definition emit :: "event \<Rightarrow> (unit, 'r) run" where
  "emit e = (\<lambda>w. (Inr (), w\<lparr>trace := trace w @ [e]\<rparr>))"

definition request :: "rpc \<Rightarrow> (content, 'r) run" where
  "request r = (\<lambda>w.
     case server w (session_open w) r (remote w) (fs w) of
       (res, remote', fs') \<Rightarrow>
         (res, w\<lparr>remote := remote', fs := fs', trace := trace w @ [Rpc (session_open w) r]\<rparr>))"

definition call_tool :: "string \<Rightarrow> json \<Rightarrow> (content, 'r) run" where
  "call_tool name arguments = request (CallTool name arguments)"

definition messages_create :: "prompt \<Rightarrow> (content, 'r) run" where
  "messages_create p = (\<lambda>w.
     (ai w (ai_calls w) p, w\<lparr>ai_calls := Suc (ai_calls w), trace := trace w @ [AICalled p]\<rparr>))"

definition now :: "(datetime, 'r) run" where
  "now = (\<lambda>w. (Inr (clock w (clock_reads w)), w\<lparr>clock_reads := Suc (clock_reads w)\<rparr>))"

definition git_diff :: "string \<Rightarrow> string \<Rightarrow> (string, 'r) run" where
  "git_diff a b = (\<lambda>w.
     (case (rev_parse (repo w) a, rev_parse (repo w) b) of
        (Some x, Some y) \<Rightarrow> Inr (diff_text w x y)
      | _ \<Rightarrow> Inl GitCommandError,
      w\<lparr>trace := trace w @ [GitDiff a b]\<rparr>))"

text \<open>
  \<^verbatim>\<open>repo.git.add('.')\<close> makes the index hold the files of the working directory: every
  file that is tracked already, and every other file that \<^verbatim>\<open>.gitignore\<close> does not exclude.
\<close>

definition git_add :: "string \<Rightarrow> (unit, 'r) run" where
  "git_add pathspec = (\<lambda>w.
     (Inr (), w\<lparr>repo := (repo w)\<lparr>staged :=
                   filter (\<lambda>(p, c). p \<in> fst ` set (staged (repo w)) \<or> \<not> ignored (repo w) p)
                          (worktree (cwd w) (fs w))\<rparr>,
                trace := trace w @ [GitAdd pathspec]\<rparr>))"

text \<open>
  \<^verbatim>\<open>repo.git.commit('-m', message)\<close>. GitPython drops an argument that is \<^verbatim>\<open>None\<close>,
  flattens a list into its elements and passes the \<^verbatim>\<open>str\<close> of everything else, so the
  command line after \<^verbatim>\<open>-m\<close> is \<open>git_arguments\<close> of the message: the first argument
  is the message, the others are pathspecs. git refuses \<^verbatim>\<open>-m\<close> without a value; a message
  that is empty, which is one with nothing but white space and sign-off lines (the
  \<^verbatim>\<open>str\<close> of a value that is not a string is never that); a pathspec that matches
  nothing; and a commit that changes nothing.
\<close>

fun flatten :: "json \<Rightarrow> json list" where
  "flatten (JArr xs) = concat (map flatten xs)"
| "flatten j = [j]"

fun git_arguments :: "json \<Rightarrow> json list" where
  "git_arguments JNull = []"
| "git_arguments j = flatten j"

definition white_space :: "char \<Rightarrow> bool" where
  "white_space c \<longleftrightarrow> c \<in> {CHR '' '', CHR 0x09, CHR 0x0A, CHR 0x0D}"

fun lines_of :: "string \<Rightarrow> string list" where
  "lines_of [] = [[]]"
| "lines_of (c # cs) =
     (if c = CHR 0x0A then [] # lines_of cs
      else (case lines_of cs of [] \<Rightarrow> [[c]] | l # ls \<Rightarrow> (c # l) # ls))"

definition empty_message :: "json \<Rightarrow> bool" where
  "empty_message m =
     (case m of
        JStr s \<Rightarrow> list_all (\<lambda>l. prefix ''Signed-off-by: '' l \<or> list_all white_space l)
                           (lines_of s)
      | _ \<Rightarrow> False)"

definition git_commit :: "json \<Rightarrow> (unit, 'r) run" where
  "git_commit msg = (\<lambda>w.
     (let w' = w\<lparr>trace := trace w @ [GitCommit msg]\<rparr>; r = repo w in
      case git_arguments msg of
        [] \<Rightarrow> (Inl GitCommandError, w')
      | m # pathspecs \<Rightarrow>
          if empty_message m then (Inl GitCommandError, w')
          else
            (case (if pathspecs = [] then Some (staged r)
                   else pathspec_tree r pathspecs (worktree (cwd w) (fs w))) of
               None \<Rightarrow> (Inl GitCommandError, w')
             | Some tree \<Rightarrow>
                 if (case commits r of c # cs \<Rightarrow> set c = set tree | [] \<Rightarrow> tree = [])
                 then (Inl GitCommandError, w')
                 else (Inr (), w'\<lparr>repo := r\<lparr>commits := tree # commits r\<rparr>\<rparr>))))"

definition mkdir :: "path \<Rightarrow> (unit, 'r) run" where
  "mkdir p = (\<lambda>w.
     case makedirs (cwd w) p (fs w) of
       (res, fs') \<Rightarrow> (res, w\<lparr>fs := fs', trace := trace w @ [Mkdir p]\<rparr>))"

definition copytree :: "path \<Rightarrow> path \<Rightarrow> (unit, 'r) run" where
  "copytree src dst = (\<lambda>w.
     case copytree_fs (cwd w) src dst (fs w) of
       (res, fs') \<Rightarrow> (res, w\<lparr>fs := fs', trace := trace w @ [Copytree src dst]\<rparr>))"

text \<open>\<^verbatim>\<open>open(p, 'w')\<close> creates or empties the file; \<^verbatim>\<open>f.write(s)\<close> appends to it.\<close>

definition open_w :: "path \<Rightarrow> (unit, 'r) run" where
  "open_w p = (\<lambda>w.
     let q = cwd w @ p; w' = w\<lparr>trace := trace w @ [Opened p]\<rparr> in
     case map_of (fs w) q of
       Some Dir \<Rightarrow> (Inl IsADirectoryError, w')
     | _ \<Rightarrow> (Inr (), w'\<lparr>fs := put q (File []) (fs w)\<rparr>))"

definition fwrite :: "path \<Rightarrow> string \<Rightarrow> (unit, 'r) run" where
  "fwrite p s = (\<lambda>w.
     let q = cwd w @ p in
     (Inr (), w\<lparr>fs := put q (File ((case map_of (fs w) q of Some (File old) \<Rightarrow> old | _ \<Rightarrow> []) @ s))
                         (fs w)\<rparr>))"


section \<open>The program\<close>

subsection \<open>\<^verbatim>\<open>connect_to_model\<close>\<close>

text \<open>
  \<^verbatim>\<open>async with stdio_client(...) as (read, write): async with ClientSession(read, write)
  as session: ...; return session\<close>. Leaving the \<^verbatim>\<open>with\<close> blocks, by \<^verbatim>\<open>return\<close> or by
  an exception, runs their exits: the session and its transport are released before the
  caller gets the handle. The result of the \<^verbatim>\<open>ConnectFolder\<close> call is not looked at.
\<close>

definition connect_request :: "string \<Rightarrow> json" where
  "connect_request model_path =
     JObj [(''request'', JObj [(''operation'', JStr ''ConnectFolder''),
                               (''folderPath'', JStr model_path)])]"

definition with_session :: "('a, 'r) run \<Rightarrow> ('a, 'r) run" where
  "with_session body = (\<lambda>w.
     case body (w\<lparr>session_open := True, trace := trace w @ [SessionEntered]\<rparr>) of
       (res, w') \<Rightarrow> (res, w'\<lparr>session_open := False, trace := trace w' @ [SessionExited]\<rparr>))"

definition connect_to_model :: "string \<Rightarrow> (unit, 'r) run" where
  "connect_to_model model_path =
     bind_run (request (Spawn ''powerbi-mcp-server'')) (\<lambda>streams.
     with_session
       (bind_run (request Initialize) (\<lambda>initialized.
        bind_run (call_tool ''powerbi-model_connection_operations''
                    (connect_request model_path)) (\<lambda>result.
        ret ()))))"

subsection \<open>\<^verbatim>\<open>analyze_measure_with_ai\<close> and \<^verbatim>\<open>analyze_tmdl_changes\<close>\<close>

text \<open>Both return \<^verbatim>\<open>json.loads(response.content[0].text)\<close> as it is.\<close>

definition analyze_measure_with_ai :: "json \<Rightarrow> json \<Rightarrow> (json, 'r) run" where
  "analyze_measure_with_ai measure_name dax_expression =
     bind_run (messages_create (MeasurePrompt measure_name dax_expression)) (\<lambda>response.
     pure_py (loads_text response))"

definition analyze_tmdl_changes :: "string \<Rightarrow> (json, 'r) run" where
  "analyze_tmdl_changes diff_content =
     bind_run (messages_create (ChangesPrompt diff_content)) (\<lambda>response.
     pure_py (loads_text response))"

subsection \<open>\<^verbatim>\<open>auto_document_measures\<close>\<close>

definition measure_tool :: string where
  "measure_tool = ''powerbi-model_measure_operations''"

definition list_request :: "string \<Rightarrow> json" where
  "list_request connection_name =
     JObj [(''request'', JObj [(''operation'', JStr ''List''),
                               (''connectionName'', JStr connection_name)])]"

definition get_request :: "string \<Rightarrow> json \<Rightarrow> json \<Rightarrow> json" where
  "get_request connection_name table name =
     JObj [(''request'', JObj [(''operation'', JStr ''Get''),
                               (''connectionName'', JStr connection_name),
                               (''tableName'', table),
                               (''measureName'', name)])]"

text \<open>
  The \<^verbatim>\<open>updateDefinition\<close> of the update request: \<^verbatim>\<open>ai_analysis['description']\<close>,
  \<^verbatim>\<open>ai_analysis.get('display_folder', '')\<close> and \<^verbatim>\<open>ai_analysis['technical_notes']\<close>,
  evaluated in this order.
\<close>

definition update_definition :: "json \<Rightarrow> json \<Rightarrow> py_error + json" where
  "update_definition name ai_analysis =
     bind_py (subscript ai_analysis ''description'') (\<lambda>description.
     bind_py (py_get ai_analysis ''display_folder'' (JStr [])) (\<lambda>display_folder.
     bind_py (subscript ai_analysis ''technical_notes'') (\<lambda>technical_notes.
     Inr (JObj [(''name'', name),
                (''description'', description),
                (''displayFolder'', display_folder),
                (''annotations'',
                   JArr [JObj [(''key'', JStr ''AI_Generated_Docs''), (''value'', JStr ''true'')],
                         JObj [(''key'', JStr ''Technical_Notes''),
                               (''value'', technical_notes)]])]))))"

definition update_request :: "string \<Rightarrow> json \<Rightarrow> json \<Rightarrow> json \<Rightarrow> py_error + json" where
  "update_request connection_name table name ai_analysis =
     bind_py (update_definition name ai_analysis) (\<lambda>definition.
     Inr (JObj [(''request'', JObj [(''operation'', JStr ''Update''),
                                    (''connectionName'', JStr connection_name),
                                    (''tableName'', table),
                                    (''measureName'', name),
                                    (''updateDefinition'', definition)])]))"

text \<open>
  The body of the loop, for one element \<open>item\<close> of the listing (the loop variable
  \<^verbatim>\<open>measure\<close>), with the list of documented measures so far. There is no \<^verbatim>\<open>try\<close> in the method: whatever a step raises leaves
  the loop and the method.
\<close>

definition document_measure :: "string \<Rightarrow> json \<Rightarrow> json list \<Rightarrow> (json list, 'r) run" where
  "document_measure connection_name item documented_measures =
     bind_run (pure_py (py_get item ''description'' JNull)) (\<lambda>described.
     if truthy described then ret documented_measures
     else
       bind_run (pure_py (subscript item ''tableName'')) (\<lambda>table.
       bind_run (pure_py (subscript item ''name'')) (\<lambda>name.
       bind_run (call_tool measure_tool (get_request connection_name table name))
         (\<lambda>measure_detail.
       bind_run (pure_py (loads_text measure_detail)) (\<lambda>details.
       bind_run (pure_py (bind_py (subscript details ''data'') (\<lambda>d.
                          bind_py (subscript d ''measure'') (\<lambda>m.
                          subscript m ''expression'')))) (\<lambda>dax.
       bind_run (analyze_measure_with_ai name dax) (\<lambda>ai_analysis.
       bind_run (pure_py (update_request connection_name table name ai_analysis))
         (\<lambda>update.
       bind_run (call_tool measure_tool update) (\<lambda>updated.
       bind_run (pure_py (subscript ai_analysis ''description'')) (\<lambda>description.
       bind_run (emit (Printed (Documented name))) (\<lambda>printed.
       ret (documented_measures @
              [JObj [(''measure'', name), (''description'', description)]]))))))))))))"

text \<open>
  The steps of the loop body for an element that has no description, as the comments of
  the method name them: \<^verbatim>\<open># Get measure details\<close> (the \<^verbatim>\<open>Get\<close> request and the
  expression read from its answer), \<^verbatim>\<open># AI analyzes the measure\<close>, and
  \<^verbatim>\<open># Update measure with AI-generated description\<close> (the request is built and sent; its
  result is not assigned to anything), followed by the entry appended to
  \<^verbatim>\<open>documented_measures\<close> and the line printed. \<^verbatim>\<open>measure['name']\<close> and
  \<^verbatim>\<open>measure['tableName']\<close> are evaluated wherever the source writes them.
\<close>

definition fetch_measure :: "string \<Rightarrow> json \<Rightarrow> (json, 'r) run" where
  "fetch_measure connection_name item =
     bind_run (pure_py (subscript item ''tableName'')) (\<lambda>table.
     bind_run (pure_py (subscript item ''name'')) (\<lambda>name.
     bind_run (call_tool measure_tool (get_request connection_name table name))
       (\<lambda>measure_detail.
     bind_run (pure_py (loads_text measure_detail)) (\<lambda>details.
     pure_py (bind_py (subscript details ''data'') (\<lambda>d.
              bind_py (subscript d ''measure'') (\<lambda>m.
              subscript m ''expression'')))))))"

definition analyze_measure :: "json \<Rightarrow> json \<Rightarrow> (json, 'r) run" where
  "analyze_measure item dax =
     bind_run (pure_py (subscript item ''name'')) (\<lambda>name.
     analyze_measure_with_ai name dax)"

definition update_measure :: "string \<Rightarrow> json \<Rightarrow> json \<Rightarrow> (content, 'r) run" where
  "update_measure connection_name item ai_analysis =
     bind_run (pure_py (subscript item ''tableName'')) (\<lambda>table.
     bind_run (pure_py (subscript item ''name'')) (\<lambda>name.
     bind_run (pure_py (update_request connection_name table name ai_analysis)) (\<lambda>update.
     call_tool measure_tool update)))"

definition report_measure :: "json \<Rightarrow> json \<Rightarrow> json list \<Rightarrow> (json list, 'r) run" where
  "report_measure item ai_analysis documented_measures =
     bind_run (pure_py (subscript item ''name'')) (\<lambda>name.
     bind_run (pure_py (subscript ai_analysis ''description'')) (\<lambda>description.
     bind_run (emit (Printed (Documented name))) (\<lambda>printed.
     ret (documented_measures @
            [JObj [(''measure'', name), (''description'', description)]]))))"

fun for_measures :: "string \<Rightarrow> json list \<Rightarrow> json list \<Rightarrow> (json list, 'r) run" where
  "for_measures connection_name [] documented_measures = ret documented_measures"
| "for_measures connection_name (item # rest) documented_measures =
     bind_run (document_measure connection_name item documented_measures)
       (for_measures connection_name rest)"

text \<open>The listing: \<^verbatim>\<open>measures['data']['measures']\<close>, made ready for the loop.\<close>

definition list_measures :: "string \<Rightarrow> (json list, 'r) run" where
  "list_measures connection_name =
     bind_run (call_tool measure_tool (list_request connection_name)) (\<lambda>measures_result.
     bind_run (pure_py (loads_text measures_result)) (\<lambda>measures.
     pure_py (bind_py (subscript measures ''data'') (\<lambda>d.
              bind_py (subscript d ''measures'') py_iter))))"

definition auto_document_measures :: "string \<Rightarrow> (json list, 'r) run" where
  "auto_document_measures connection_name =
     bind_run (list_measures connection_name) (\<lambda>listing.
     for_measures connection_name listing [])"

subsection \<open>\<^verbatim>\<open>create_backup_with_changelog\<close>\<close>

definition nl :: string where
  "nl = [CHR 0x0A]"

definition fence :: string where
  "fence = replicate 3 (CHR 0x60)"

definition changelog_header :: "datetime \<Rightarrow> string" where
  "changelog_header t = ''# Model Backup - '' @ stamp_long t @ nl @ nl"

text \<open>
  The \<^verbatim>\<open>with open(changelog_path, 'w')\<close> block: seven writes. The clock is read for
  the header inside the block; a missing or non-string \<^verbatim>\<open>changelog\<close> or \<^verbatim>\<open>impact\<close>
  raises between two writes and leaves the file with what was written before.
\<close>

definition write_changelog :: "path \<Rightarrow> json \<Rightarrow> string \<Rightarrow> (unit, 'r) run" where
  "write_changelog changelog_path analysis diff =
     bind_run (open_w changelog_path) (\<lambda>f.
     bind_run now (\<lambda>t.
     bind_run (fwrite changelog_path (changelog_header t)) (\<lambda>u.
     bind_run (fwrite changelog_path (''## Changes Summary'' @ nl @ nl)) (\<lambda>u.
     bind_run (pure_py (bind_py (subscript analysis ''changelog'') (\<lambda>c.
                        py_add_str c (nl @ nl)))) (\<lambda>changelog.
     bind_run (fwrite changelog_path changelog) (\<lambda>u.
     bind_run (fwrite changelog_path (''## Impact Assessment'' @ nl @ nl)) (\<lambda>u.
     bind_run (pure_py (bind_py (subscript analysis ''impact'') (\<lambda>i.
                        py_add_str i (nl @ nl)))) (\<lambda>impact.
     bind_run (fwrite changelog_path impact) (\<lambda>u.
     bind_run (fwrite changelog_path (''## Technical Details'' @ nl @ nl)) (\<lambda>u.
     fwrite changelog_path (fence @ nl @ diff @ nl @ fence @ nl)))))))))))"

definition definition_tree :: path where
  "definition_tree = [''Dataset.SemanticModel'', ''definition'']"

text \<open>
  The method returns \<^verbatim>\<open>None\<close> (the value \<^const>\<open>JNull\<close>) when the diff is empty, and
  \<^verbatim>\<open>analysis['commit_message']\<close> otherwise.
\<close>

text \<open>The rest of the method once \<^verbatim>\<open>backup_dir\<close> is known.\<close>

definition snapshot_into :: "path \<Rightarrow> json \<Rightarrow> string \<Rightarrow> (json, 'r) run" where
  "snapshot_into backup_dir analysis diff =
     bind_run (mkdir backup_dir) (\<lambda>made.
     bind_run (copytree definition_tree (backup_dir @ [''definition''])) (\<lambda>copied.
     let changelog_path = backup_dir @ [''CHANGELOG.md''] in
     bind_run (write_changelog changelog_path analysis diff) (\<lambda>written.
     bind_run (emit (Printed (BackupCreated backup_dir))) (\<lambda>printed.
     bind_run (emit (Printed (ChangelogAt changelog_path))) (\<lambda>printed.
     pure_py (subscript analysis ''commit_message''))))))"

definition create_backup_with_changelog :: "(json, 'r) run" where
  "create_backup_with_changelog =
     bind_run (git_diff ''HEAD~1'' ''HEAD'') (\<lambda>diff.
     if diff = [] then bind_run (emit (Printed NoChanges)) (\<lambda>printed. ret JNull)
     else
       bind_run (analyze_tmdl_changes diff) (\<lambda>analysis.
       bind_run now (\<lambda>t.
       snapshot_into [''backups'', stamp_compact t] analysis diff)))"

subsection \<open>\<^verbatim>\<open>main\<close>\<close>

definition model_path :: string where
  "model_path =
     ''c:/Users/Dell/Documents/Payroll Engine BI/payrollengine-powerbi-repo/Dataset.SemanticModel''"

definition export_request :: "string \<Rightarrow> json" where
  "export_request folder =
     JObj [(''request'', JObj [(''operation'', JStr ''ExportToTmdlFolder''),
                               (''tmdlFolderPath'', JStr folder)])]"

text \<open>
  The agent is constructed first (the service client and \<^verbatim>\<open>git.Repo('.')\<close>); the world
  already holds both. The commit is made with whatever \<^verbatim>\<open>create_backup_with_changelog\<close>
  returned.
\<close>

definition main :: "(unit, 'r) run" where
  "main =
     bind_run (emit (Printed Connecting)) (\<lambda>printed.
     bind_run (connect_to_model model_path) (\<lambda>session.
     bind_run (emit (Printed AutoDocumenting)) (\<lambda>printed.
     bind_run (auto_document_measures (''TMDL-'' @ model_path @ ''/definition''))
       (\<lambda>documented.
     bind_run (call_tool ''powerbi-model_database_operations''
                 (export_request (model_path @ ''/definition''))) (\<lambda>exported.
     bind_run create_backup_with_changelog (\<lambda>commit_message.
     bind_run (git_add ''.'') (\<lambda>added.
     bind_run (git_commit commit_message) (\<lambda>committed.
     emit (Printed Complete)))))))))"


section \<open>A model server\<close>

text \<open>
  Modelled from the spec: the remote model store behind the session (section 4.1), which
  is not part of the program. It holds the measures; \<^verbatim>\<open>List\<close> returns every measure
  with its identity and description, \<^verbatim>\<open>Get\<close> returns the full measure or fails when it
  does not exist, \<^verbatim>\<open>Update\<close> changes only the supplied fields of the measure named in
  the request or fails when the server rejects the write, and \<^verbatim>\<open>ExportToTmdlFolder\<close>
  writes the on-disk form of the model under the target folder. The on-disk form is the
  parameter \<open>tmdl\<close>; \<open>rejects\<close> lists the measures whose update the server refuses;
  a \<open>strict\<close> server refuses every request made on a released session.
\<close>

record measure_rec =
  m_table :: string
  m_name :: string
  m_expression :: string
  m_description :: string
  m_folder :: string
  m_annotations :: "(string \<times> string) list"

record store =
  measures :: "measure_rec list"
  rejects :: "(string \<times> string) list"
  strict :: bool
  tmdl :: "measure_rec list \<Rightarrow> (path \<times> string) list"

definition field :: "string \<Rightarrow> json \<Rightarrow> json option" where
  "field k j = (case j of JObj kvs \<Rightarrow> map_of kvs k | _ \<Rightarrow> None)"

definition listed :: "measure_rec \<Rightarrow> json" where
  "listed m = JObj [(''name'', JStr (m_name m)),
                    (''tableName'', JStr (m_table m)),
                    (''description'', JStr (m_description m))]"

definition detailed :: "measure_rec \<Rightarrow> json" where
  "detailed m = JObj [(''name'', JStr (m_name m)),
                      (''tableName'', JStr (m_table m)),
                      (''expression'', JStr (m_expression m)),
                      (''description'', JStr (m_description m)),
                      (''displayFolder'', JStr (m_folder m))]"

definition named :: "json option \<Rightarrow> json option \<Rightarrow> measure_rec \<Rightarrow> bool" where
  "named t n m = (t = Some (JStr (m_table m)) \<and> n = Some (JStr (m_name m)))"

definition annotation :: "json \<Rightarrow> (string \<times> string) option" where
  "annotation j = (case (field ''key'' j, field ''value'' j) of
                     (Some (JStr k), Some (JStr v)) \<Rightarrow> Some (k, v)
                   | _ \<Rightarrow> None)"

definition annotate :: "(string \<times> string) list \<Rightarrow> measure_rec \<Rightarrow> measure_rec" where
  "annotate kvs m =
     m\<lparr>m_annotations := kvs @ filter (\<lambda>kv. fst kv \<notin> fst ` set kvs) (m_annotations m)\<rparr>"

text \<open>A partial update: a field that is supplied must have the right shape.\<close>

definition apply_update :: "json \<Rightarrow> measure_rec \<Rightarrow> measure_rec option" where
  "apply_update d m =
     (case (case field ''description'' d of
              None \<Rightarrow> Some m
            | Some (JStr s) \<Rightarrow> Some (m\<lparr>m_description := s\<rparr>)
            | Some other \<Rightarrow> None) of
        None \<Rightarrow> None
      | Some m1 \<Rightarrow>
     (case (case field ''displayFolder'' d of
              None \<Rightarrow> Some m1
            | Some (JStr s) \<Rightarrow> Some (m1\<lparr>m_folder := s\<rparr>)
            | Some other \<Rightarrow> None) of
        None \<Rightarrow> None
      | Some m2 \<Rightarrow>
     (case field ''annotations'' d of
        None \<Rightarrow> Some m2
      | Some (JArr as) \<Rightarrow>
          (case those (map annotation as) of
             None \<Rightarrow> None
           | Some kvs \<Rightarrow> Some (annotate kvs m2))
      | Some other \<Rightarrow> None)))"

fun split_path :: "string \<Rightarrow> path" where
  "split_path [] = [[]]"
| "split_path (c # cs) =
     (if c = CHR ''/'' then [] # split_path cs
      else (case split_path cs of [] \<Rightarrow> [[c]] | x # xs \<Rightarrow> (c # x) # xs))"

definition write_files :: "path \<Rightarrow> (path \<times> string) list \<Rightarrow> filesystem \<Rightarrow> filesystem" where
  "write_files folder files disk =
     fold (\<lambda>(p, body). put (folder @ p) (File body)) files (put folder Dir disk)"

definition measure_operations ::
  "json \<Rightarrow> store \<Rightarrow> filesystem \<Rightarrow> (py_error + content) \<times> store \<times> filesystem" where
  "measure_operations req st disk =
     (let t = field ''tableName'' req; n = field ''measureName'' req in
      if field ''operation'' req = Some (JStr ''List'') then
        (Inr (Encoded (JObj [(''data'', JObj [(''measures'', JArr (map listed (measures st)))])])),
         st, disk)
      else if field ''operation'' req = Some (JStr ''Get'') then
        (case find (named t n) (measures st) of
           None \<Rightarrow> (Inl (ToolError ''NotFoundError''), st, disk)
         | Some m \<Rightarrow> (Inr (Encoded (JObj [(''data'', JObj [(''measure'', detailed m)])])), st, disk))
      else if field ''operation'' req = Some (JStr ''Update'') then
        (case (find (named t n) (measures st), field ''updateDefinition'' req) of
           (Some m, Some d) \<Rightarrow>
             if (m_table m, m_name m) \<in> set (rejects st) \<or> apply_update d m = None
             then (Inl (ToolError ''UpdateError''), st, disk)
             else (Inr (Encoded (JObj [(''success'', JBool True)])),
                   st\<lparr>measures := map (\<lambda>x. if named t n x then the (apply_update d x) else x)
                                       (measures st)\<rparr>, disk)
         | (None, d) \<Rightarrow> (Inl (ToolError ''NotFoundError''), st, disk)
         | (Some m, None) \<Rightarrow> (Inl (ToolError ''UpdateError''), st, disk))
      else (Inl (ToolError ''BadRequest''), st, disk))"

definition store_server ::
  "bool \<Rightarrow> rpc \<Rightarrow> store \<Rightarrow> filesystem \<Rightarrow> (py_error + content) \<times> store \<times> filesystem" where
  "store_server is_open r st disk =
     (case r of
        Spawn command \<Rightarrow> (Inr Blank, st, disk)
      | Initialize \<Rightarrow>
          if strict st \<and> \<not> is_open then (Inl ClosedResourceError, st, disk)
          else (Inr Blank, st, disk)
      | CallTool name arguments \<Rightarrow>
          if strict st \<and> \<not> is_open then (Inl ClosedResourceError, st, disk)
          else (case field ''request'' arguments of
                  None \<Rightarrow> (Inl (ToolError ''BadRequest''), st, disk)
                | Some req \<Rightarrow>
                    if name = ''powerbi-model_connection_operations'' then
                      (Inr (Encoded (JObj [(''success'', JBool True)])), st, disk)
                    else if name = ''powerbi-model_measure_operations'' then
                      measure_operations req st disk
                    else if name = ''powerbi-model_database_operations'' then
                      (case field ''tmdlFolderPath'' req of
                         Some (JStr folder) \<Rightarrow>
                           (Inr (Encoded (JObj [(''success'', JBool True)])), st,
                            write_files (split_path folder) (tmdl st (measures st)) disk)
                       | _ \<Rightarrow> (Inl (ToolError ''BadRequest''), st, disk))
                    else (Inl (ToolError ''BadRequest''), st, disk)))"



text \<open>
  A client that hands a failure of the tool back as the result of the call, marked as an
  error, instead of raising it: the text of such a result is the message of the error,
  not JSON.
\<close>

definition reporting ::
  "(bool \<Rightarrow> rpc \<Rightarrow> 'r \<Rightarrow> filesystem \<Rightarrow> (py_error + content) \<times> 'r \<times> filesystem) \<Rightarrow>
   bool \<Rightarrow> rpc \<Rightarrow> 'r \<Rightarrow> filesystem \<Rightarrow> (py_error + content) \<times> 'r \<times> filesystem" where
  "reporting srv is_open r st disk =
     (case srv is_open r st disk of
        (Inl (ToolError m), st', disk') \<Rightarrow> (Inr Malformed, st', disk')
      | res \<Rightarrow> res)"


section \<open>What the specification says of a snapshot\<close>

text \<open>
  The changelog document as the specification describes it: the header with the
  timestamp, the changelog summary, the impact assessment, and the raw diff as a literal
  block, each under its heading.
\<close>

definition changelog_document :: "datetime \<Rightarrow> string \<Rightarrow> string \<Rightarrow> string \<Rightarrow> string" where
  "changelog_document t changelog impact diff =
     changelog_header t @
     ''## Changes Summary'' @ nl @ nl @ changelog @ nl @ nl @
     ''## Impact Assessment'' @ nl @ nl @ impact @ nl @ nl @
     ''## Technical Details'' @ nl @ nl @ fence @ nl @ diff @ nl @ fence @ nl"

text \<open>
  The fields of a \<^verbatim>\<open>datetime\<close> are within their ranges; two readings fall in the same
  second when they agree on everything but the microsecond.
\<close>

definition valid_time :: "datetime \<Rightarrow> bool" where
  "valid_time t \<longleftrightarrow>
     1 \<le> dt_year t \<and> dt_year t \<le> 9999 \<and> 1 \<le> dt_month t \<and> dt_month t \<le> 12 \<and>
     1 \<le> dt_day t \<and> dt_day t \<le> 31 \<and> dt_hour t < 24 \<and> dt_minute t < 60 \<and>
     dt_second t < 60 \<and> dt_microsecond t < 1000000"

definition second_of :: "datetime \<Rightarrow> nat list" where
  "second_of t = [dt_year t, dt_month t, dt_day t, dt_hour t, dt_minute t, dt_second t]"

text \<open>The digits of a string, in order: what a formatted timestamp says.\<close>

definition digits :: "string \<Rightarrow> string" where
  "digits s = filter (\<lambda>c. c \<in> set ''0123456789'') s"

text \<open>The digits that both timestamp formats show for a time.\<close>

definition stamp_digits :: "datetime \<Rightarrow> string" where
  "stamp_digits t = pad4 (dt_year t) @ pad2 (dt_month t) @ pad2 (dt_day t) @
     pad2 (dt_hour t) @ pad2 (dt_minute t) @ pad2 (dt_second t)"

text \<open>A directory that is not there and has nothing under it.\<close>

definition absent :: "filesystem \<Rightarrow> path \<Rightarrow> bool" where
  "absent disk d = list_all (\<lambda>e. below d (fst e) = None) disk"

text \<open>
  A statement is confined to the directory \<open>d\<close> of the working directory when it leaves
  the working directory where it is and every node outside \<open>d\<close> as it found it.
\<close>

definition confined :: "path \<Rightarrow> ('a, 'r) run \<Rightarrow> bool" where
  "confined d m \<longleftrightarrow>
     (\<forall>w. cwd (snd (m w)) = cwd w \<and>
          (\<forall>p n. below (cwd w @ d) p = None \<longrightarrow> map_of (fs w) p = Some n \<longrightarrow>
                 map_of (fs (snd (m w))) p = Some n))"

section \<open>Reading a trace\<close>


fun is_file_write :: "event \<Rightarrow> bool" where
  "is_file_write (Mkdir p) = True"
| "is_file_write (Copytree a b) = True"
| "is_file_write (Opened p) = True"
| "is_file_write e = False"

fun prompt_of :: "event \<Rightarrow> prompt list" where
  "prompt_of (AICalled p) = [p]"
| "prompt_of e = []"

text \<open>The prompts sent to the reasoning service, in order.\<close>

definition prompts :: "event list \<Rightarrow> prompt list" where
  "prompts events = concat (map prompt_of events)"

text \<open>A statement is silent when it sends nothing to the reasoning service.\<close>

definition silent :: "('a, 'r) run \<Rightarrow> bool" where
  "silent m \<longleftrightarrow> (\<forall>w. prompts (trace (snd (m w))) = prompts (trace w))"

text \<open>
  The life of the session in a trace: entering and leaving it, and every request made
  on it, with whether the session was open when the request was made.
\<close>

datatype session_step = Enter | Exit | Use bool string

fun session_step_of :: "event \<Rightarrow> session_step list" where
  "session_step_of SessionEntered = [Enter]"
| "session_step_of SessionExited = [Exit]"
| "session_step_of (Rpc b Initialize) = [Use b ''initialize'']"
| "session_step_of (Rpc b (CallTool name arguments)) = [Use b name]"
| "session_step_of e = []"

section \<open>Sample worlds\<close>

definition sample_time :: datetime where
  "sample_time = \<lparr>dt_year = 2024, dt_month = 1, dt_day = 2,
                   dt_hour = 3, dt_minute = 4, dt_second = 5, dt_microsecond = 0\<rparr>"

definition repo_dir :: path where
  "repo_dir = [''c:'', ''Users'', ''Dell'', ''Documents'', ''Payroll Engine BI'',
               ''payrollengine-powerbi-repo'']"

definition measure_reply :: json where
  "measure_reply = JObj [(''description'', JStr ''Sum of sales''),
                         (''technical_notes'', JStr ''SUM''),
                         (''issues'', JArr []),
                         (''display_folder'', JStr ''Sales'')]"

definition changes_reply :: json where
  "changes_reply = JObj [(''changelog'', JStr ''Docs added''),
                         (''impact'', JStr ''None''),
                         (''commit_message'', JStr ''Document measures'')]"

definition sample_service :: "nat \<Rightarrow> prompt \<Rightarrow> py_error + content" where
  "sample_service n p =
     (case p of
        MeasurePrompt name dax \<Rightarrow> Inr (Encoded measure_reply)
      | ChangesPrompt d \<Rightarrow> Inr (Encoded changes_reply))"

definition sample_tmdl :: "measure_rec list \<Rightarrow> (path \<times> string) list" where
  "sample_tmdl ms =
     [([''measures.tmdl''], concat (map (\<lambda>m. m_name m @ '':'' @ m_description m @ '';'') ms))]"

definition sample_diff :: "snapshot \<Rightarrow> snapshot \<Rightarrow> string" where
  "sample_diff a b =
     concat (map (\<lambda>(p, c). if map_of a p = Some c then [] else ''M '' @ last p @ '';'') b)"

definition undocumented :: "string \<Rightarrow> measure_rec" where
  "undocumented name = \<lparr>m_table = ''Sales'', m_name = name, m_expression = ''SUM(x)'',
                         m_description = [], m_folder = [], m_annotations = []\<rparr>"

definition sample_store :: store where
  "sample_store = \<lparr>measures = [undocumented ''Total''], rejects = [], strict = False,
                    tmdl = sample_tmdl\<rparr>"

definition tmdl_file :: path where
  "tmdl_file = definition_tree @ [''measures.tmdl'']"

definition sample_files :: filesystem where
  "sample_files = [(repo_dir, Dir),
                   (repo_dir @ [''Dataset.SemanticModel''], Dir),
                   (repo_dir @ definition_tree, Dir),
                   (repo_dir @ tmdl_file, File ''Total:;'')]"

definition sample_repo :: repository where
  "sample_repo = \<lparr>commits = [[([''README.md''], ''b''), (tmdl_file, ''Total:;'')],
                              [([''README.md''], ''a''), (tmdl_file, ''Total:;'')]],
                   staged = [([''README.md''], ''b''), (tmdl_file, ''Total:;'')],
                   ignored = (\<lambda>p. False), pathspec_tree = (\<lambda>specs work. None)\<rparr>"

text \<open>
  One undocumented measure; the last commit changed \<^verbatim>\<open>README.md\<close> only; the working
  directory is the repository that holds the model of \<^const>\<open>model_path\<close>.
\<close>

definition sample_world :: "store world" where
  "sample_world = \<lparr>cwd = repo_dir, fs = sample_files, repo = sample_repo,
                    diff_text = sample_diff, remote = sample_store, server = store_server,
                    session_open = False, ai = sample_service, ai_calls = 0,
                    clock = (\<lambda>n. sample_time), clock_reads = 0, trace = []\<rparr>"

text \<open>Three undocumented measures; the server rejects the update of the second.\<close>

definition faulty_world :: "store world" where
  "faulty_world = sample_world\<lparr>remote :=
     sample_store\<lparr>measures := [undocumented ''A'', undocumented ''B'', undocumented ''C''],
                  rejects := [(''Sales'', ''B'')]\<rparr>\<rparr>"

text \<open>The same, with the rejection handed back as the result of the call.\<close>

definition reporting_world :: "store world" where
  "reporting_world = faulty_world\<lparr>server := reporting store_server\<rparr>"

text \<open>The last commit changed nothing.\<close>

definition quiet_world :: "store world" where
  "quiet_world = sample_world\<lparr>repo :=
     \<lparr>commits = [[(tmdl_file, ''Total:;'')], [(tmdl_file, ''Total:;'')]],
      staged = [(tmdl_file, ''Total:;'')],
      ignored = (\<lambda>p. False), pathspec_tree = (\<lambda>specs work. None)\<rparr>\<rparr>"



text \<open>The service answers with two of the four keys.\<close>

definition sparse_reply :: json where
  "sparse_reply = JObj [(''description'', JStr ''Sum of sales''),
                        (''technical_notes'', JStr ''SUM'')]"

definition sparse_world :: "store world" where
  "sparse_world = sample_world\<lparr>ai := (\<lambda>n p. Inr (Encoded sparse_reply))\<rparr>"

text \<open>The server refuses requests on a released session.\<close>

definition strict_world :: "store world" where
  "strict_world = sample_world\<lparr>remote := sample_store\<lparr>strict := True\<rparr>\<rparr>"

text \<open>A snapshot taken earlier in the same second is already there.\<close>

definition earlier_snapshot :: path where
  "earlier_snapshot = repo_dir @ [''backups'', ''20240102_030405'']"

definition crowded_world :: "store world" where
  "crowded_world = sample_world\<lparr>fs := sample_files @
     [(repo_dir @ [''backups''], Dir),
      (earlier_snapshot, Dir),
      (earlier_snapshot @ [''CHANGELOG.md''], File ''earlier'')]\<rparr>"

text \<open>A snapshot of another second is already there.\<close>

definition older_snapshot :: path where
  "older_snapshot = repo_dir @ [''backups'', ''20231231_235959'']"

definition archived_world :: "store world" where
  "archived_world = sample_world\<lparr>fs := sample_files @
     [(repo_dir @ [''backups''], Dir),
      (older_snapshot, Dir),
      (older_snapshot @ [''CHANGELOG.md''], File ''older'')]\<rparr>"



text \<open>
  The documented model has just been exported: the working directory holds the new
  \<^verbatim>\<open>measures.tmdl\<close>, the last commit the old one.
\<close>

definition exported_world :: "store world" where
  "exported_world = sample_world\<lparr>
     fs := [(repo_dir, Dir), (repo_dir @ [''Dataset.SemanticModel''], Dir),
            (repo_dir @ definition_tree, Dir),
            (repo_dir @ tmdl_file, File ''Total:Sum of sales;'')],
     remote := sample_store\<lparr>measures := [(undocumented ''Total'')\<lparr>m_description := ''Sum of sales''\<rparr>]\<rparr>\<rparr>"


text \<open>The clock passes midnight between its first and its second reading.\<close>

definition before_midnight :: datetime where
  "before_midnight = \<lparr>dt_year = 2024, dt_month = 1, dt_day = 2,
                       dt_hour = 23, dt_minute = 59, dt_second = 59, dt_microsecond = 999999\<rparr>"

definition after_midnight :: datetime where
  "after_midnight = \<lparr>dt_year = 2024, dt_month = 1, dt_day = 3,
                      dt_hour = 0, dt_minute = 0, dt_second = 0, dt_microsecond = 7\<rparr>"

definition ticking_world :: "store world" where
  "ticking_world =
     sample_world\<lparr>clock := (\<lambda>n. if n = 0 then before_midnight else after_midnight)\<rparr>"


section \<open>Running statements\<close>

lemma bind_run_apply:
  "bind_run m f w = (case m w of (Inl e, w') \<Rightarrow> (Inl e, w') | (Inr x, w') \<Rightarrow> f x w')"
  by (simp add: bind_run_def)

lemma bind_run_Inr: "m w = (Inr x, w') \<Longrightarrow> bind_run m f w = f x w'"
  by (simp add: bind_run_def)


lemma pair_of_fst: "fst p = a \<Longrightarrow> p = (a, snd p)"
  by (simp add: prod_eq_iff)

lemma sample_world_fields:
  "cwd sample_world = repo_dir"
  "fs sample_world = sample_files"
  "repo sample_world = sample_repo"
  "diff_text sample_world = sample_diff"
  "remote sample_world = sample_store"
  "server sample_world = store_server"
  "session_open sample_world = False"
  "ai sample_world = sample_service"
  "ai_calls sample_world = 0"
  "clock sample_world = (\<lambda>n. sample_time)"
  "clock_reads sample_world = 0"
  "trace sample_world = []"
  by (simp_all add: sample_world_def)

section \<open>The empty diff\<close>

lemma git_diff_apply:
  "git_diff a b w = (fst (git_diff a b w), w\<lparr>trace := trace w @ [GitDiff a b]\<rparr>)"
  by (simp add: git_diff_def)

text \<open>
  C6. When the computed diff is empty, \<^verbatim>\<open>create_backup_with_changelog\<close> returns
  \<^verbatim>\<open>None\<close> and writes nothing: the file system is the one it started with, the trace
  gains the diff and the printed notice and no \<^verbatim>\<open>mkdir\<close>, \<^verbatim>\<open>copytree\<close> or
  \<^verbatim>\<open>open\<close>, and the reasoning service is not called.
\<close>

theorem empty_diff_short_circuit:
  assumes "fst (git_diff ''HEAD~1'' ''HEAD'' w) = Inr []"
  shows "fst (create_backup_with_changelog w) = Inr JNull
       \<and> fs (snd (create_backup_with_changelog w)) = fs w
       \<and> filter is_file_write (trace (snd (create_backup_with_changelog w)))
           = filter is_file_write (trace w)
       \<and> snd (create_backup_with_changelog w)
           = w\<lparr>trace := trace w @ [GitDiff ''HEAD~1'' ''HEAD'', Printed NoChanges]\<rparr>"
proof -
  have "git_diff ''HEAD~1'' ''HEAD'' w = (Inr [], w\<lparr>trace := trace w @ [GitDiff ''HEAD~1'' ''HEAD'']\<rparr>)"
    using assms git_diff_apply [of "''HEAD~1''" "''HEAD''" w] by simp
  then have "create_backup_with_changelog w
      = (Inr JNull, w\<lparr>trace := trace w @ [GitDiff ''HEAD~1'' ''HEAD'', Printed NoChanges]\<rparr>)"
    by (simp add: create_backup_with_changelog_def bind_run_apply emit_def ret_def)
  then show ?thesis by simp
qed

theorem empty_diff_short_circuit_witness:
  "fst (git_diff ''HEAD~1'' ''HEAD'' quiet_world) = Inr []
   \<and> fst (create_backup_with_changelog quiet_world) = Inr JNull
   \<and> fs (snd (create_backup_with_changelog quiet_world)) = sample_files
   \<and> filter is_file_write (trace (snd (create_backup_with_changelog quiet_world))) = []"
proof -
  have h: "fst (git_diff ''HEAD~1'' ''HEAD'' quiet_world) = Inr []"
    by (simp add: git_diff_def quiet_world_def sample_world_fields rev_parse_def sample_diff_def)
  show ?thesis
    using h empty_diff_short_circuit [OF h]
    by (simp add: quiet_world_def sample_world_fields)
qed



section \<open>Files\<close>

lemma map_of_put: "map_of (put p n disk) q = (if q = p then Some n else map_of disk q)"
  by (induction disk) auto

lemma put_put: "put p n (put p n' disk) = put p n disk"
  by (induction disk) auto

lemma below_iff: "below d p = Some r \<longleftrightarrow> p = d @ r"
  by (induction d p rule: below.induct) auto

lemma below_iff': "Some r = below d p \<longleftrightarrow> p = d @ r"
  using below_iff [of d p r] by auto

lemma below_append [simp]: "below d (d @ r) = Some r"
  by (simp add: below_iff)

lemma below_None_iff: "below d p = None \<longleftrightarrow> (\<forall>r. p \<noteq> d @ r)"
  using below_iff [of d p] by (cases "below d p") auto

lemma makedirs_keeps:
  "map_of disk p = Some n \<Longrightarrow> map_of (snd (makedirs base cs disk)) p = Some n"
proof (induction cs arbitrary: base disk)
  case Nil
  then show ?case by simp
next
  case (Cons c cs)
  show ?case
  proof (cases "map_of disk (base @ [c])")
    case None
    with Cons.prems have "map_of (put (base @ [c]) Dir disk) p = Some n"
      by (auto simp: map_of_put)
    from Cons.IH [OF this] None show ?thesis by simp
  next
    case (Some node)
    with Cons show ?thesis by (cases node) auto
  qed
qed

lemma makedirs_outside:
  "below base p = None \<Longrightarrow> map_of (snd (makedirs base cs disk)) p = map_of disk p"
proof (induction cs arbitrary: base disk)
  case Nil
  then show ?case by simp
next
  case (Cons c cs)
  have out: "below (base @ [c]) p = None"
    using Cons.prems by (auto simp: below_None_iff)
  have ne: "p \<noteq> base @ [c]"
    using Cons.prems by (auto simp: below_None_iff)
  show ?case
  proof (cases "map_of disk (base @ [c])")
    case None
    with Cons.IH [OF out, of "put (base @ [c]) Dir disk"] ne show ?thesis
      by (simp add: map_of_put)
  next
    case (Some node)
    with Cons.IH [OF out, of disk] show ?thesis by (cases node) auto
  qed
qed

lemma tree_entries_iff:
  "(r, n) \<in> set (tree_entries disk src) \<longleftrightarrow> r \<noteq> [] \<and> map_of disk (src @ r) = Some n"
proof
  assume "(r, n) \<in> set (tree_entries disk src)"
  then obtain p m where pm: "(p, m) \<in> set disk"
    and sel: "(r, n) \<in> set (case below src p of
                 Some (c # cs) \<Rightarrow> if map_of disk p = Some m then [(c # cs, m)] else []
               | _ \<Rightarrow> [])"
    by (auto simp: tree_entries_def)
  from sel show "r \<noteq> [] \<and> map_of disk (src @ r) = Some n"
    by (auto simp: below_iff below_iff' split: option.splits list.splits if_splits)
next
  assume a: "r \<noteq> [] \<and> map_of disk (src @ r) = Some n"
  then have "(src @ r, n) \<in> set disk" by (auto dest: map_of_SomeD)
  moreover from a obtain c cs where "r = c # cs" by (cases r) auto
  ultimately show "(r, n) \<in> set (tree_entries disk src)"
    using a by (force simp: tree_entries_def)
qed

lemma fold_writes:
  "map_of (fold apply_step (map (\<lambda>e. Write (d @ fst e) (snd e)) es) disk) q =
     (case below d q of
        None \<Rightarrow> map_of disk q
      | Some r \<Rightarrow> (case map_of (rev es) r of None \<Rightarrow> map_of disk q | Some n \<Rightarrow> Some n))"
proof (induction es arbitrary: disk)
  case Nil
  then show ?case by (simp split: option.splits)
next
  case (Cons e es)
  show ?case
    by (cases e) (auto simp: Cons.IH map_of_put below_iff map_add_def split: option.splits)
qed

lemma fold_steps_outside:
  assumes "\<forall>s \<in> set steps. \<forall>q n. s = Write q n \<longrightarrow> below d q \<noteq> None"
    and "below d p = None"
  shows "map_of (fold apply_step steps disk) p = map_of disk p"
  using assms
proof (induction steps arbitrary: disk)
  case Nil
  then show ?case by simp
next
  case (Cons s steps)
  then show ?case by (cases s) (auto simp: map_of_put)
qed


lemma map_of_rev_entries:
  "map_of (rev (tree_entries disk s)) r = (if r = [] then None else map_of disk (s @ r))"
proof (cases "map_of (rev (tree_entries disk s)) r")
  case None
  then have "\<forall>n. (r, n) \<notin> set (tree_entries disk s)"
    by (auto simp: map_of_eq_None_iff image_iff)
  then have "r = [] \<or> map_of disk (s @ r) = None"
    by (auto simp: tree_entries_iff)
  with None show ?thesis by auto
next
  case (Some n)
  then have "(r, n) \<in> set (tree_entries disk s)"
    by (auto dest: map_of_SomeD)
  with Some show ?thesis by (auto simp: tree_entries_iff)
qed

lemma copy_entry_fresh:
  assumes "\<forall>r. r \<noteq> [] \<longrightarrow> map_of disk1 (d @ r) = None" and "fst e \<noteq> []"
  shows "copy_entry disk1 d e = Write (d @ fst e) (snd e)"
proof -
  have "\<not> blocked disk1 d (fst e)"
    using assms(1) by (auto simp: blocked_def list_ex_iff is_file_def)
  moreover have "map_of disk1 (d @ fst e) = None"
    using assms by simp
  ultimately show ?thesis
    by (cases "snd e") (simp_all add: copy_entry_def Let_def)
qed

lemma copytree_fresh:
  assumes src: "map_of disk (base @ src) = Some Dir"
    and mk: "makedirs base dst disk = (Inr (), disk1)"
    and fresh: "\<forall>r. r \<noteq> [] \<longrightarrow> map_of disk1 ((base @ dst) @ r) = None"
  shows "copytree_fs base src dst disk =
           (Inr (), fold apply_step (map (\<lambda>e. Write ((base @ dst) @ fst e) (snd e))
                                        (tree_entries disk (base @ src))) disk1)"
proof -
  have steps: "map (copy_entry disk1 (base @ dst)) (tree_entries disk (base @ src))
             = map (\<lambda>e. Write ((base @ dst) @ fst e) (snd e)) (tree_entries disk (base @ src))"
  proof (rule map_cong [OF refl])
    fix e assume "e \<in> set (tree_entries disk (base @ src))"
    then have "fst e \<noteq> []"
      using tree_entries_iff [of "fst e" "snd e" disk "base @ src"] by simp
    with fresh show "copy_entry disk1 (base @ dst) e = Write ((base @ dst) @ fst e) (snd e)"
      by (rule copy_entry_fresh)
  qed
  have noclash: "\<not> list_ex is_clash (map (\<lambda>e. Write ((base @ dst) @ fst e) (snd e))
                                        (tree_entries disk (base @ src)))"
    by (simp add: list_ex_iff)
  show ?thesis
    by (simp add: copytree_fs_def src mk steps noclash Let_def del: append_assoc)
qed

lemma copytree_fresh_lookup:
  assumes src: "map_of disk (base @ src) = Some Dir"
    and mk: "makedirs base dst disk = (Inr (), disk1)"
    and fresh: "\<forall>r. r \<noteq> [] \<longrightarrow> map_of disk1 ((base @ dst) @ r) = None"
  shows "map_of (snd (copytree_fs base src dst disk)) q =
           (case below (base @ dst) q of
              Some (c # cs) \<Rightarrow> (case map_of disk ((base @ src) @ c # cs) of
                                  Some n \<Rightarrow> Some n
                                | None \<Rightarrow> map_of disk1 q)
            | _ \<Rightarrow> map_of disk1 q)"
  by (simp add: copytree_fresh [OF assms] fold_writes map_of_rev_entries
        del: append_assoc split: option.splits list.splits)

lemma open_w_ok:
  "map_of (fs w) (cwd w @ p) \<noteq> Some Dir \<Longrightarrow>
   open_w p w = (Inr (), w\<lparr>fs := put (cwd w @ p) (File []) (fs w), trace := trace w @ [Opened p]\<rparr>)"
  by (cases "map_of (fs w) (cwd w @ p)") (auto simp: open_w_def Let_def split: node.splits)

lemma fwrite_after:
  "fs w = put (cwd w @ p) (File old) f \<Longrightarrow>
   fwrite p s w = (Inr (), w\<lparr>fs := put (cwd w @ p) (File (old @ s)) f\<rparr>)"
  by (simp add: fwrite_def Let_def map_of_put put_put)

lemma write_changelog_ok:
  assumes nd: "map_of (fs w) (cwd w @ p) \<noteq> Some Dir"
    and c: "map_of kvs ''changelog'' = Some (JStr c)"
    and i: "map_of kvs ''impact'' = Some (JStr i)"
  shows "write_changelog p (JObj kvs) d w =
           (Inr (), w\<lparr>fs := put (cwd w @ p)
                                (File (changelog_document (clock w (clock_reads w)) c i d)) (fs w),
                       clock_reads := Suc (clock_reads w),
                       trace := trace w @ [Opened p]\<rparr>)"
  by (simp add: write_changelog_def bind_run_def open_w_ok [OF nd] now_def fwrite_after
        pure_py_def bind_py_def c i changelog_document_def)


lemma mkdir_apply:
  "mkdir p w = (fst (makedirs (cwd w) p (fs w)),
                w\<lparr>fs := snd (makedirs (cwd w) p (fs w)), trace := trace w @ [Mkdir p]\<rparr>)"
  by (simp add: mkdir_def split_beta)

lemma copytree_apply:
  "copytree a b w = (fst (copytree_fs (cwd w) a b (fs w)),
                     w\<lparr>fs := snd (copytree_fs (cwd w) a b (fs w)),
                       trace := trace w @ [Copytree a b]\<rparr>)"
  by (simp add: copytree_def split_beta)


section \<open>A snapshot\<close>

lemma absent_lookup: "absent disk d \<Longrightarrow> map_of disk (d @ q) = None"
proof (rule ccontr)
  assume a: "absent disk d" and "map_of disk (d @ q) \<noteq> None"
  then obtain n where "(d @ q, n) \<in> set disk" by (auto dest: map_of_SomeD)
  with a have "below d (d @ q) = None" by (auto simp: absent_def list_all_iff)
  then show False by simp
qed

lemma below_self [simp]: "below d d = Some []"
  by (simp add: below_iff)

lemma snapshot_into_ok:
  fixes w :: "'r world"
  assumes nofile: "\<not> is_file (fs w) (cwd w @ [''backups''])"
    and nofile2: "\<not> is_file (fs w) (cwd w @ [''backups'', ts])"
    and fresh: "absent (fs w) (cwd w @ [''backups'', ts, ''definition''])"
    and nolog: "map_of (fs w) (cwd w @ [''backups'', ts, ''CHANGELOG.md'']) \<noteq> Some Dir"
    and src: "map_of (fs w) (cwd w @ definition_tree) = Some Dir"
    and c: "map_of kvs ''changelog'' = Some (JStr c)"
    and i: "map_of kvs ''impact'' = Some (JStr i)"
    and m: "map_of kvs ''commit_message'' = Some msg"
  shows "\<exists>disk. snapshot_into [''backups'', ts] (JObj kvs) d w =
           (Inr msg,
            w\<lparr>fs := disk, clock_reads := Suc (clock_reads w),
              trace := trace w @ [Mkdir [''backups'', ts],
                                  Copytree definition_tree [''backups'', ts, ''definition''],
                                  Opened [''backups'', ts, ''CHANGELOG.md''],
                                  Printed (BackupCreated [''backups'', ts]),
                                  Printed (ChangelogAt [''backups'', ts, ''CHANGELOG.md''])]\<rparr>)
         \<and> map_of disk (cwd w @ [''backups'', ts]) = Some Dir
         \<and> (\<forall>r. map_of disk (cwd w @ [''backups'', ts, ''definition''] @ r)
                 = map_of (fs w) (cwd w @ definition_tree @ r))
         \<and> map_of disk (cwd w @ [''backups'', ts, ''CHANGELOG.md''])
             = Some (File (changelog_document (clock w (clock_reads w)) c i d))"
proof -
  have none: "map_of (fs w) (cwd w @ ''backups'' # ts # ''definition'' # q) = None" for q
    using absent_lookup [OF fresh, of q] by simp
  have bdir: "map_of (fs w) (cwd w @ [''backups'']) = None
            \<or> map_of (fs w) (cwd w @ [''backups'']) = Some Dir"
    using nofile by (auto simp: is_file_def split: option.splits node.splits)
  have ddir: "map_of (fs w) (cwd w @ [''backups'', ts]) = None
            \<or> map_of (fs w) (cwd w @ [''backups'', ts]) = Some Dir"
    using nofile2 by (auto simp: is_file_def split: option.splits node.splits)
  define disk1 where "disk1 = snd (makedirs (cwd w) [''backups'', ts] (fs w))"
  have mk1: "makedirs (cwd w) [''backups'', ts] (fs w) = (Inr (), disk1)"
    using bdir ddir by (auto simp: disk1_def map_of_put)
  have l1: "map_of disk1 q = (if q = cwd w @ [''backups''] \<or> q = cwd w @ [''backups'', ts]
                              then Some Dir else map_of (fs w) q)" for q
    using bdir ddir by (auto simp: disk1_def map_of_put)
  define disk2 where "disk2 = snd (makedirs (cwd w) [''backups'', ts, ''definition''] disk1)"
  have mk2: "makedirs (cwd w) [''backups'', ts, ''definition''] disk1 = (Inr (), disk2)"
    using none [of "[]"] by (simp add: disk2_def l1)
  have l2: "map_of disk2 q = (if q = cwd w @ [''backups'', ts, ''definition'']
                              then Some Dir else map_of disk1 q)" for q
    using none [of "[]"] by (simp add: disk2_def l1 map_of_put)
  have src1: "map_of disk1 (cwd w @ definition_tree) = Some Dir"
    using src by (simp add: l1 definition_tree_def)
  have fresh2: "\<forall>r. r \<noteq> [] \<longrightarrow> map_of disk2 ((cwd w @ [''backups'', ts, ''definition'']) @ r) = None"
    by (simp add: l2 l1 none)
  define disk3 where
    "disk3 = snd (copytree_fs (cwd w) definition_tree [''backups'', ts, ''definition''] disk1)"
  have cp: "copytree_fs (cwd w) definition_tree [''backups'', ts, ''definition''] disk1
              = (Inr (), disk3)"
    using copytree_fresh [OF src1 mk2 fresh2] by (simp add: disk3_def)
  have l3: "map_of disk3 q =
              (case below (cwd w @ [''backups'', ts, ''definition'']) q of
                 Some (x # xs) \<Rightarrow> (case map_of disk1 ((cwd w @ definition_tree) @ x # xs) of
                                     Some n \<Rightarrow> Some n
                                   | None \<Rightarrow> map_of disk2 q)
               | _ \<Rightarrow> map_of disk2 q)" for q
    unfolding disk3_def by (rule copytree_fresh_lookup [OF src1 mk2 fresh2])
  let ?log = "[''backups'', ts, ''CHANGELOG.md'']"
  define w1 where "w1 = w\<lparr>fs := disk1, trace := trace w @ [Mkdir [''backups'', ts]]\<rparr>"
  define w2 where "w2 = w1\<lparr>fs := disk3,
      trace := trace w1 @ [Copytree definition_tree [''backups'', ts, ''definition'']]\<rparr>"
  have r1: "mkdir [''backups'', ts] w = (Inr (), w1)"
    by (simp add: mkdir_apply mk1 w1_def del: makedirs.simps)
  have r2: "copytree definition_tree [''backups'', ts, ''definition''] w1 = (Inr (), w2)"
    by (simp add: copytree_apply cp w1_def w2_def)
  have w2_fields: "fs w2 = disk3" "cwd w2 = cwd w" "clock w2 = clock w"
    "clock_reads w2 = clock_reads w"
    by (simp_all add: w1_def w2_def)
  have below_log: "below (cwd w @ [''backups'', ts, ''definition'']) (cwd w @ ?log) = None"
    by (simp add: below_None_iff)
  have nd: "map_of (fs w2) (cwd w2 @ ?log) \<noteq> Some Dir"
    using nolog by (simp add: w2_fields l3 below_log l2 l1)
  define disk where
    "disk = put (cwd w @ ?log) (File (changelog_document (clock w (clock_reads w)) c i d)) disk3"
  have r3: "write_changelog ?log (JObj kvs) d w2 =
              (Inr (), w2\<lparr>fs := disk, clock_reads := Suc (clock_reads w),
                          trace := trace w2 @ [Opened ?log]\<rparr>)"
    using write_changelog_ok [OF nd c i, of d] by (simp add: w2_fields disk_def)
  have run0: "snapshot_into [''backups'', ts] (JObj kvs) d w =
           (Inr msg,
            w2\<lparr>fs := disk, clock_reads := Suc (clock_reads w),
               trace := trace w2 @ [Opened ?log, Printed (BackupCreated [''backups'', ts]),
                                    Printed (ChangelogAt ?log)]\<rparr>)"
    by (simp add: snapshot_into_def bind_run_def Let_def r1 r2 r3 emit_def pure_py_def m)
  have run: "snapshot_into [''backups'', ts] (JObj kvs) d w =
           (Inr msg,
            w\<lparr>fs := disk, clock_reads := Suc (clock_reads w),
              trace := trace w @ [Mkdir [''backups'', ts],
                                  Copytree definition_tree [''backups'', ts, ''definition''],
                                  Opened ?log,
                                  Printed (BackupCreated [''backups'', ts]),
                                  Printed (ChangelogAt ?log)]\<rparr>)"
    unfolding run0 by (simp add: w1_def w2_def)
  have below_dir: "below (cwd w @ [''backups'', ts, ''definition'']) (cwd w @ [''backups'', ts]) = None"
    by (simp add: below_None_iff)
  have d1: "map_of disk (cwd w @ [''backups'', ts]) = Some Dir"
    by (simp add: disk_def map_of_put l3 below_dir l2 l1)
  have d2: "map_of disk (cwd w @ [''backups'', ts, ''definition''] @ r)
              = map_of (fs w) (cwd w @ definition_tree @ r)" for r
  proof (cases r)
    case Nil
    then show ?thesis using src
      by (simp add: disk_def map_of_put l3 l2 below_iff)
  next
    case (Cons x xs)
    have b: "below (cwd w @ [''backups'', ts, ''definition''])
               (cwd w @ ''backups'' # ts # ''definition'' # x # xs) = Some (x # xs)"
      by (simp add: below_iff)
    show ?thesis
      by (cases "map_of (fs w) (cwd w @ definition_tree @ x # xs)")
         (simp_all add: Cons disk_def map_of_put l3 b l2 l1 none definition_tree_def)
  qed
  have d3: "map_of disk (cwd w @ ?log)
              = Some (File (changelog_document (clock w (clock_reads w)) c i d))"
    by (simp add: disk_def map_of_put)
  from run d1 d2 d3 show ?thesis by blast
qed


lemma create_backup_ok:
  fixes w :: "'r world"
  assumes diff: "fst (git_diff ''HEAD~1'' ''HEAD'' w) = Inr d" and ne: "d \<noteq> []"
    and reply: "ai w (ai_calls w) (ChangesPrompt d) = Inr (Encoded (JObj kvs))"
    and c: "map_of kvs ''changelog'' = Some (JStr c)"
    and i: "map_of kvs ''impact'' = Some (JStr i)"
    and m: "map_of kvs ''commit_message'' = Some msg"
    and ts: "ts = stamp_compact (clock w (clock_reads w))"
    and nofile: "\<not> is_file (fs w) (cwd w @ [''backups''])"
    and nofile2: "\<not> is_file (fs w) (cwd w @ [''backups'', ts])"
    and fresh: "absent (fs w) (cwd w @ [''backups'', ts, ''definition''])"
    and nolog: "map_of (fs w) (cwd w @ [''backups'', ts, ''CHANGELOG.md'']) \<noteq> Some Dir"
    and src: "map_of (fs w) (cwd w @ definition_tree) = Some Dir"
  shows "fst (create_backup_with_changelog w) = Inr msg
       \<and> trace (snd (create_backup_with_changelog w)) =
           trace w @ [GitDiff ''HEAD~1'' ''HEAD'', AICalled (ChangesPrompt d),
                      Mkdir [''backups'', ts],
                      Copytree definition_tree [''backups'', ts, ''definition''],
                      Opened [''backups'', ts, ''CHANGELOG.md''],
                      Printed (BackupCreated [''backups'', ts]),
                      Printed (ChangelogAt [''backups'', ts, ''CHANGELOG.md''])]
       \<and> clock_reads (snd (create_backup_with_changelog w)) = Suc (Suc (clock_reads w))
       \<and> map_of (fs (snd (create_backup_with_changelog w))) (cwd w @ [''backups'', ts]) = Some Dir
       \<and> (\<forall>r. map_of (fs (snd (create_backup_with_changelog w)))
                   (cwd w @ [''backups'', ts, ''definition''] @ r)
                 = map_of (fs w) (cwd w @ definition_tree @ r))
       \<and> map_of (fs (snd (create_backup_with_changelog w)))
             (cwd w @ [''backups'', ts, ''CHANGELOG.md''])
             = Some (File (changelog_document (clock w (Suc (clock_reads w))) c i d))"
proof -
  define w3 where "w3 = w\<lparr>ai_calls := Suc (ai_calls w),
    trace := trace w @ [GitDiff ''HEAD~1'' ''HEAD'', AICalled (ChangesPrompt d)],
    clock_reads := Suc (clock_reads w)\<rparr>"
  have f3: "fs w3 = fs w" "cwd w3 = cwd w" "clock w3 = clock w"
    "clock_reads w3 = Suc (clock_reads w)" "trace w3 = trace w @ [GitDiff ''HEAD~1'' ''HEAD'', AICalled (ChangesPrompt d)]"
    by (simp_all add: w3_def)
  have gd: "git_diff ''HEAD~1'' ''HEAD'' w = (Inr d, w\<lparr>trace := trace w @ [GitDiff ''HEAD~1'' ''HEAD'']\<rparr>)"
    using diff git_diff_apply [of "''HEAD~1''" "''HEAD''" w] by simp
  have pre: "create_backup_with_changelog w = snapshot_into [''backups'', ts] (JObj kvs) d w3"
    by (simp add: create_backup_with_changelog_def bind_run_def gd ne analyze_tmdl_changes_def
          messages_create_def reply pure_py_def now_def w3_def ts)
  from snapshot_into_ok [of w3 ts kvs c i msg d] nofile nofile2 fresh nolog src c i m
  obtain disk where run: "snapshot_into [''backups'', ts] (JObj kvs) d w3 =
           (Inr msg,
            w3\<lparr>fs := disk, clock_reads := Suc (clock_reads w3),
              trace := trace w3 @ [Mkdir [''backups'', ts],
                                  Copytree definition_tree [''backups'', ts, ''definition''],
                                  Opened [''backups'', ts, ''CHANGELOG.md''],
                                  Printed (BackupCreated [''backups'', ts]),
                                  Printed (ChangelogAt [''backups'', ts, ''CHANGELOG.md''])]\<rparr>)"
    and d1: "map_of disk (cwd w @ [''backups'', ts]) = Some Dir"
    and d2: "\<forall>r. map_of disk (cwd w @ [''backups'', ts, ''definition''] @ r)
                 = map_of (fs w) (cwd w @ definition_tree @ r)"
    and d3: "map_of disk (cwd w @ [''backups'', ts, ''CHANGELOG.md''])
             = Some (File (changelog_document (clock w (Suc (clock_reads w))) c i d))"
    unfolding f3 by blast
  show ?thesis
    unfolding pre run using d1 d2 d3 by (simp add: f3)
qed





section \<open>Timestamps\<close>

lemma digit_in: "digit n \<in> set ''0123456789''"
  unfolding digit_def by (rule nth_mem) simp

lemma digits_append: "digits (a @ b) = digits a @ digits b"
  by (simp add: digits_def)

lemma digits_pad2: "digits (pad2 n) = pad2 n"
  using digit_in [of "n div 10"] digit_in [of n] by (simp add: digits_def pad2_def)

lemma digits_pad4: "digits (pad4 n) = pad4 n"
  using digit_in [of "n div 1000"] digit_in [of "n div 100"] digit_in [of "n div 10"] digit_in [of n]
  by (simp add: digits_def pad4_def)

lemma digits_Cons: "digits (c # s) = (if c \<in> set ''0123456789'' then c # digits s else digits s)"
  by (simp add: digits_def)

lemma digits_Nil: "digits [] = []"
  by (simp add: digits_def)

lemma digits_sep: "digits ''-'' = []" "digits '':'' = []" "digits '' '' = []" "digits ''_'' = []"
  "digits nl = []" "digits ''# Model Backup - '' = []"
  by (simp_all add: digits_def nl_def)

lemma digits_stamp_compact: "digits (stamp_compact t) = stamp_digits t"
  by (simp add: stamp_compact_def stamp_digits_def digits_append digits_pad2 digits_pad4
        digits_Cons digits_Nil)

lemma digits_header: "digits (changelog_header t) = stamp_digits t"
  by (simp add: changelog_header_def stamp_long_def stamp_digits_def digits_append digits_pad2
        digits_pad4 digits_Cons digits_Nil digits_sep)

lemma stamp_digits_second: "second_of t = second_of t' \<Longrightarrow> stamp_digits t = stamp_digits t'"
  by (simp add: second_of_def stamp_digits_def)


section \<open>The snapshot is complete\<close>

lemmas sample_paths = repo_dir_def definition_tree_def tmdl_file_def sample_files_def

lemma stamp_sample: "stamp_compact sample_time = ''20240102_030405''"
  by (simp add: stamp_compact_def pad2_def pad4_def digit_def sample_time_def)

lemma sample_diff_text: "fst (git_diff ''HEAD~1'' ''HEAD'' sample_world) = Inr ''M README.md;''"
  by (simp add: git_diff_def sample_world_fields sample_repo_def rev_parse_def sample_diff_def
        sample_paths)

lemma sample_changes_reply:
  "sample_service n (ChangesPrompt d) =
     Inr (Encoded (JObj [(''changelog'', JStr ''Docs added''), (''impact'', JStr ''None''),
                         (''commit_message'', JStr ''Document measures'')]))"
  by (simp add: sample_service_def changes_reply_def)

lemma sample_files_facts:
  "\<not> is_file sample_files (repo_dir @ [''backups''])"
  "\<not> is_file sample_files (repo_dir @ [''backups'', ''20240102_030405''])"
  "absent sample_files (repo_dir @ [''backups'', ''20240102_030405'', ''definition''])"
  "map_of sample_files (repo_dir @ [''backups'', ''20240102_030405'', ''CHANGELOG.md'']) \<noteq> Some Dir"
  "map_of sample_files (repo_dir @ definition_tree) = Some Dir"
  "map_of sample_files (repo_dir @ definition_tree @ [''measures.tmdl'']) = Some (File ''Total:;'')"
  by (simp_all add: is_file_def absent_def sample_paths)







section \<open>Two readings of the clock\<close>

lemma ticking_world_fields:
  "cwd ticking_world = repo_dir"
  "fs ticking_world = sample_files"
  "ai ticking_world = sample_service"
  "ai_calls ticking_world = 0"
  "clock ticking_world = (\<lambda>n. if n = 0 then before_midnight else after_midnight)"
  "clock_reads ticking_world = 0"
  by (simp_all add: ticking_world_def sample_world_fields)

lemma ticking_diff_text: "fst (git_diff ''HEAD~1'' ''HEAD'' ticking_world) = Inr ''M README.md;''"
  by (simp add: git_diff_def ticking_world_def sample_world_fields sample_repo_def rev_parse_def
        sample_diff_def sample_paths)

lemma stamp_ticking:
  "stamp_compact before_midnight = ''20240102_235959''"
  "changelog_header after_midnight = ''# Model Backup - 2024-01-03 00:00:00'' @ nl @ nl"
  by (simp_all add: stamp_compact_def changelog_header_def stamp_long_def pad2_def pad4_def
        digit_def before_midnight_def after_midnight_def)

lemma ticking_files_facts:
  "\<not> is_file sample_files (repo_dir @ [''backups'', ''20240102_235959''])"
  "absent sample_files (repo_dir @ [''backups'', ''20240102_235959'', ''definition''])"
  "map_of sample_files (repo_dir @ [''backups'', ''20240102_235959'', ''CHANGELOG.md'']) \<noteq> Some Dir"
  by (simp_all add: is_file_def absent_def sample_paths)

lemma changelog_document_header:
  "\<exists>rest. changelog_document t c i d = changelog_header t @ rest"
  unfolding changelog_document_def by (rule exI) (rule refl)

lemma ticking_backup:
  "map_of (fs (snd (create_backup_with_changelog ticking_world)))
             (repo_dir @ [''backups'', ''20240102_235959'']) = Some Dir
         \<and> map_of (fs (snd (create_backup_with_changelog ticking_world)))
             (repo_dir @ [''backups'', ''20240102_235959'', ''CHANGELOG.md''])
             = Some (File (changelog_document after_midnight ''Docs added'' ''None'' ''M README.md;''))"
    using create_backup_ok [of ticking_world "''M README.md;''"
      "[(''changelog'', JStr ''Docs added''), (''impact'', JStr ''None''),
        (''commit_message'', JStr ''Document measures'')]"
      "''Docs added''" "''None''" "JStr ''Document measures''" "''20240102_235959''"]
      ticking_diff_text sample_files_facts ticking_files_facts
    by (simp add: ticking_world_fields sample_changes_reply stamp_ticking)

text \<open>
  C10. In one backup creation the clock is read twice: the directory is named from the
  first reading and the changelog header is written from the second (under the conditions
  of C9, so that both are written). When the two readings fall in the same second the
  header shows the digits of the directory name. They need not: in \<^const>\<open>ticking_world\<close>
  midnight passes between the readings, the directory is \<^verbatim>\<open>20240102_235959\<close> and the
  header says \<^verbatim>\<open>2024-01-03 00:00:00\<close>.
\<close>

theorem header_time_is_a_second_reading:
  fixes w :: "'r world"
  assumes "fst (git_diff ''HEAD~1'' ''HEAD'' w) = Inr d" and "d \<noteq> []"
    and "ai w (ai_calls w) (ChangesPrompt d) = Inr (Encoded (JObj kvs))"
    and "map_of kvs ''changelog'' = Some (JStr c)"
    and "map_of kvs ''impact'' = Some (JStr i)"
    and "map_of kvs ''commit_message'' = Some msg"
    and "ts = stamp_compact (clock w (clock_reads w))"
    and "\<not> is_file (fs w) (cwd w @ [''backups''])"
    and "\<not> is_file (fs w) (cwd w @ [''backups'', ts])"
    and "absent (fs w) (cwd w @ [''backups'', ts, ''definition''])"
    and "map_of (fs w) (cwd w @ [''backups'', ts, ''CHANGELOG.md'']) \<noteq> Some Dir"
    and "map_of (fs w) (cwd w @ definition_tree) = Some Dir"
  shows "clock_reads (snd (create_backup_with_changelog w)) = clock_reads w + 2
       \<and> map_of (fs (snd (create_backup_with_changelog w)))
             (cwd w @ [''backups'', stamp_compact (clock w (clock_reads w))]) = Some Dir
       \<and> (\<exists>rest. map_of (fs (snd (create_backup_with_changelog w)))
                    (cwd w @ [''backups'', stamp_compact (clock w (clock_reads w)), ''CHANGELOG.md''])
                  = Some (File (changelog_header (clock w (Suc (clock_reads w))) @ rest)))
       \<and> (second_of (clock w (Suc (clock_reads w))) = second_of (clock w (clock_reads w)) \<longrightarrow>
            digits (changelog_header (clock w (Suc (clock_reads w))))
              = digits (stamp_compact (clock w (clock_reads w))))
       \<and> map_of (fs (snd (create_backup_with_changelog ticking_world)))
             (repo_dir @ [''backups'', ''20240102_235959'']) = Some Dir
       \<and> (\<exists>rest. map_of (fs (snd (create_backup_with_changelog ticking_world)))
                    (repo_dir @ [''backups'', ''20240102_235959'', ''CHANGELOG.md''])
                  = Some (File (''# Model Backup - 2024-01-03 00:00:00'' @ rest)))
       \<and> digits ''# Model Backup - 2024-01-03 00:00:00'' \<noteq> digits ''20240102_235959''"
proof (intro conjI)
  note ok = create_backup_ok [OF assms]
  from ok have reads: "clock_reads (snd (create_backup_with_changelog w)) = Suc (Suc (clock_reads w))"
    by (elim conjE)
  then show "clock_reads (snd (create_backup_with_changelog w)) = clock_reads w + 2"
    by simp
  from ok show "map_of (fs (snd (create_backup_with_changelog w)))
             (cwd w @ [''backups'', stamp_compact (clock w (clock_reads w))]) = Some Dir"
    unfolding assms(7) by (elim conjE)
  from ok have log: "map_of (fs (snd (create_backup_with_changelog w)))
                    (cwd w @ [''backups'', stamp_compact (clock w (clock_reads w)), ''CHANGELOG.md''])
          = Some (File (changelog_document (clock w (Suc (clock_reads w))) c i d))"
    unfolding assms(7) by (elim conjE)
  from changelog_document_header [of "clock w (Suc (clock_reads w))" c i d]
  obtain rest where "changelog_document (clock w (Suc (clock_reads w))) c i d
                       = changelog_header (clock w (Suc (clock_reads w))) @ rest" ..
  with log show "\<exists>rest. map_of (fs (snd (create_backup_with_changelog w)))
                    (cwd w @ [''backups'', stamp_compact (clock w (clock_reads w)), ''CHANGELOG.md''])
                  = Some (File (changelog_header (clock w (Suc (clock_reads w))) @ rest))"
    by (intro exI [of _ rest]) (simp only:)
  show "second_of (clock w (Suc (clock_reads w))) = second_of (clock w (clock_reads w)) \<longrightarrow>
            digits (changelog_header (clock w (Suc (clock_reads w))))
              = digits (stamp_compact (clock w (clock_reads w)))"
  proof
    assume "second_of (clock w (Suc (clock_reads w))) = second_of (clock w (clock_reads w))"
    then have "stamp_digits (clock w (Suc (clock_reads w))) = stamp_digits (clock w (clock_reads w))"
      by (rule stamp_digits_second)
    then show "digits (changelog_header (clock w (Suc (clock_reads w))))
                 = digits (stamp_compact (clock w (clock_reads w)))"
      by (simp only: digits_header digits_stamp_compact)
  qed
  note t = ticking_backup
  from t show "map_of (fs (snd (create_backup_with_changelog ticking_world)))
             (repo_dir @ [''backups'', ''20240102_235959'']) = Some Dir"
    by (rule conjunct1)
  from t have tlog: "map_of (fs (snd (create_backup_with_changelog ticking_world)))
             (repo_dir @ [''backups'', ''20240102_235959'', ''CHANGELOG.md''])
             = Some (File (changelog_document after_midnight ''Docs added'' ''None'' ''M README.md;''))"
    by (rule conjunct2)
  from changelog_document_header [of after_midnight "''Docs added''" "''None''" "''M README.md;''"]
  obtain rest where "changelog_document after_midnight ''Docs added'' ''None'' ''M README.md;''
                       = changelog_header after_midnight @ rest" ..
  then have "changelog_document after_midnight ''Docs added'' ''None'' ''M README.md;''
                       = ''# Model Backup - 2024-01-03 00:00:00'' @ (nl @ nl @ rest)"
    unfolding stamp_ticking(2) append_assoc .
  with tlog show "\<exists>rest. map_of (fs (snd (create_backup_with_changelog ticking_world)))
                    (repo_dir @ [''backups'', ''20240102_235959'', ''CHANGELOG.md''])
                  = Some (File (''# Model Backup - 2024-01-03 00:00:00'' @ rest))"
    by (intro exI [of _ "nl @ nl @ rest"]) (simp only:)
  show "digits ''# Model Backup - 2024-01-03 00:00:00'' \<noteq> digits ''20240102_235959''"
    by (simp add: digits_def)
qed

theorem header_time_is_a_second_reading_witness:
  "fst (git_diff ''HEAD~1'' ''HEAD'' sample_world) = Inr ''M README.md;''
   \<and> clock_reads (snd (create_backup_with_changelog sample_world)) = 2
   \<and> second_of (clock sample_world 1) = second_of (clock sample_world 0)
   \<and> digits (changelog_header (clock sample_world 1)) = digits ''20240102_030405''"
proof -
  note t = header_time_is_a_second_reading [of sample_world "''M README.md;''"
      "[(''changelog'', JStr ''Docs added''), (''impact'', JStr ''None''),
        (''commit_message'', JStr ''Document measures'')]"
      "''Docs added''" "''None''" "JStr ''Document measures''" "''20240102_030405''"]
  have "clock_reads (snd (create_backup_with_changelog sample_world)) = 2
      \<and> (second_of sample_time = second_of sample_time \<longrightarrow>
           digits (changelog_header sample_time) = digits ''20240102_030405'')"
    using t sample_diff_text sample_files_facts
    by (simp add: sample_world_fields sample_changes_reply stamp_sample)
  then show ?thesis
    using sample_diff_text by (simp add: sample_world_fields)
qed


section \<open>What a snapshot leaves alone\<close>

lemma below_None_mono: "below d p = None \<Longrightarrow> below (d @ e) p = None"
  by (auto simp: below_None_iff)

lemma below_append2 [simp]: "below (a @ b) (a @ b @ r) = Some r"
  by (simp add: below_iff)

lemma copy_entry_target: "copy_entry disk1 d e = Write q n \<Longrightarrow> below d q \<noteq> None"
  by (auto simp: copy_entry_def Let_def split: if_splits node.splits option.splits)

lemma copytree_fs_keeps:
  assumes out: "below (base @ dst) p = None" and has: "map_of disk p = Some n"
  shows "map_of (snd (copytree_fs base src dst disk)) p = Some n"
proof (cases "map_of disk (base @ src)")
  case None
  with has show ?thesis by (simp add: copytree_fs_def)
next
  case (Some node)
  show ?thesis
  proof (cases node)
    case (File x)
    with Some has show ?thesis by (simp add: copytree_fs_def)
  next
    case Dir
    obtain r disk1 where mk: "makedirs base dst disk = (r, disk1)" by (cases "makedirs base dst disk")
    have k1: "map_of disk1 p = Some n"
      using makedirs_keeps [OF has, of base dst] mk by simp
    show ?thesis
    proof (cases r)
      case (Inl e)
      with Some Dir mk k1 show ?thesis by (simp add: copytree_fs_def)
    next
      case (Inr u)
      have "map_of (fold apply_step (map (copy_entry disk1 (base @ dst))
                                        (tree_entries disk (base @ src))) disk1) p
              = map_of disk1 p"
        by (rule fold_steps_outside [OF _ out]) (auto dest: copy_entry_target)
      with Some Dir mk k1 Inr show ?thesis by (simp add: copytree_fs_def Let_def)
    qed
  qed
qed

lemma confined_bind:
  assumes "confined d m" and "\<And>x. confined d (f x)"
  shows "confined d (bind_run m f)"
  unfolding confined_def
proof (intro allI)
  fix w
  obtain r w' where mw: "m w = (r, w')" by (cases "m w")
  from assms(1) mw have c1: "cwd w' = cwd w"
    and k1: "\<And>p n. below (cwd w @ d) p = None \<Longrightarrow> map_of (fs w) p = Some n
                    \<Longrightarrow> map_of (fs w') p = Some n"
    unfolding confined_def by (metis snd_conv)+
  show "cwd (snd (bind_run m f w)) = cwd w \<and>
        (\<forall>p n. below (cwd w @ d) p = None \<longrightarrow> map_of (fs w) p = Some n \<longrightarrow>
               map_of (fs (snd (bind_run m f w))) p = Some n)"
  proof (cases r)
    case (Inl e)
    with mw c1 k1 show ?thesis by (simp add: bind_run_def)
  next
    case (Inr x)
    from assms(2) [of x] have c2: "cwd (snd (f x w')) = cwd w'"
      and k2: "\<And>p n. below (cwd w' @ d) p = None \<Longrightarrow> map_of (fs w') p = Some n
                    \<Longrightarrow> map_of (fs (snd (f x w'))) p = Some n"
      unfolding confined_def by blast+
    from Inr mw c1 c2 k1 k2 show ?thesis by (simp add: bind_run_def)
  qed
qed

lemma confined_simple:
  "confined d (emit e)" "confined d (pure_py r)" "confined d (ret x)" "confined d now"
  by (simp_all add: confined_def emit_def pure_py_def ret_def now_def)

lemma confined_mkdir: "confined d (mkdir p)"
  by (simp add: confined_def mkdir_apply makedirs_keeps del: makedirs.simps)

lemma confined_copytree: "confined d (copytree a (d @ e))"
  unfolding confined_def
proof (intro allI conjI impI)
  fix w :: "'a world" and p n
  show "cwd (snd (copytree a (d @ e) w)) = cwd w" by (simp add: copytree_apply)
  assume "below (cwd w @ d) p = None" and has: "map_of (fs w) p = Some n"
  then have "below (cwd w @ d @ e) p = None"
    using below_None_mono [of "cwd w @ d" p e] by simp
  from copytree_fs_keeps [OF this has]
  show "map_of (fs (snd (copytree a (d @ e) w))) p = Some n" by (simp add: copytree_apply)
qed

lemma confined_open_w: "confined d (open_w (d @ e))"
  by (auto simp: confined_def open_w_def Let_def map_of_put split: option.splits node.splits)

lemma confined_fwrite: "confined d (fwrite (d @ e) s)"
  by (auto simp: confined_def fwrite_def Let_def map_of_put)

lemma confined_write_changelog: "confined d (write_changelog (d @ e) a x)"
  unfolding write_changelog_def
  by (intro confined_bind confined_simple confined_open_w confined_fwrite)

lemma confined_snapshot_into: "confined d (snapshot_into d a x)"
  unfolding snapshot_into_def Let_def
  by (intro confined_bind confined_simple confined_mkdir confined_copytree
        confined_write_changelog)


lemma create_backup_keeps:
  fixes w :: "'r world"
  assumes has: "map_of (fs w) p = Some n"
    and out: "below (cwd w @ [''backups'', stamp_compact (clock w (clock_reads w))]) p = None"
  shows "map_of (fs (snd (create_backup_with_changelog w))) p = Some n"
proof -
  let ?ts = "stamp_compact (clock w (clock_reads w))"
  obtain r where gd: "git_diff ''HEAD~1'' ''HEAD'' w
                        = (r, w\<lparr>trace := trace w @ [GitDiff ''HEAD~1'' ''HEAD'']\<rparr>)"
    using git_diff_apply [of "''HEAD~1''" "''HEAD''" w] by blast
  show ?thesis
  proof (cases r)
    case (Inl e)
    with gd has show ?thesis by (simp add: create_backup_with_changelog_def bind_run_def)
  next
    case (Inr d)
    show ?thesis
    proof (cases "d = []")
      case True
      with gd Inr has show ?thesis
        by (simp add: create_backup_with_changelog_def bind_run_def emit_def ret_def)
    next
      case False
      define w2 where "w2 = w\<lparr>ai_calls := Suc (ai_calls w),
         trace := trace w @ [GitDiff ''HEAD~1'' ''HEAD'', AICalled (ChangesPrompt d)]\<rparr>"
      obtain a where an: "analyze_tmdl_changes d (w\<lparr>trace := trace w @ [GitDiff ''HEAD~1'' ''HEAD'']\<rparr>)
                            = (a, w2)"
        by (cases "ai w (ai_calls w) (ChangesPrompt d)"; cases "loads_text (projr (ai w (ai_calls w) (ChangesPrompt d)))")
           (simp_all add: analyze_tmdl_changes_def bind_run_def messages_create_def pure_py_def w2_def)
      have f2: "fs w2 = fs w" "cwd w2 = cwd w" "clock w2 = clock w" "clock_reads w2 = clock_reads w"
        by (simp_all add: w2_def)
      show ?thesis
      proof (cases a)
        case (Inl e)
        with gd Inr False an has f2 show ?thesis
          by (simp add: create_backup_with_changelog_def bind_run_def)
      next
        case (Inr analysis)
        define w3 where "w3 = w2\<lparr>clock_reads := Suc (clock_reads w2)\<rparr>"
        have f3: "fs w3 = fs w" "cwd w3 = cwd w"
          by (simp_all add: w3_def f2)
        have run: "create_backup_with_changelog w = snapshot_into [''backups'', ?ts] analysis d w3"
          using gd \<open>r = Inr d\<close> False an Inr
          by (simp add: create_backup_with_changelog_def bind_run_def now_def w3_def f2)
        from confined_snapshot_into [of "[''backups'', ?ts]" analysis d] has out
        have "map_of (fs (snd (snapshot_into [''backups'', ?ts] analysis d w3))) p = Some n"
          unfolding confined_def using f3 by metis
        with run show ?thesis by simp
      qed
    qed
  qed
qed


lemma digit_inj: "digit a = digit b \<Longrightarrow> a mod 10 = b mod 10"
proof -
  assume "digit a = digit b"
  moreover have "distinct ''0123456789''" by simp
  moreover have "a mod 10 < length ''0123456789''" "b mod 10 < length ''0123456789''" by simp_all
  ultimately show ?thesis
    unfolding digit_def by (simp only: nth_eq_iff_index_eq)
qed

lemma two_digits:
  fixes x y :: nat
  assumes "x < 100" "y < 100" "x div 10 mod 10 = y div 10 mod 10" "x mod 10 = y mod 10"
  shows "x = y"
proof -
  from assms(1,2) have "x div 10 < 10" "y div 10 < 10" by simp_all
  with assms(3) have "x div 10 = y div 10" by simp
  moreover have "x = 10 * (x div 10) + x mod 10" "y = 10 * (y div 10) + y mod 10" by simp_all
  ultimately show ?thesis using assms(4) by metis
qed

lemma pad2_inj: "a < 100 \<Longrightarrow> b < 100 \<Longrightarrow> pad2 a = pad2 b \<Longrightarrow> a = b"
proof -
  assume a: "a < 100" and b: "b < 100" and "pad2 a = pad2 b"
  then have "digit (a div 10) = digit (b div 10)" "digit a = digit b"
    by (simp_all add: pad2_def)
  then have "a div 10 mod 10 = b div 10 mod 10" "a mod 10 = b mod 10"
    by (auto dest: digit_inj)
  with a b show ?thesis by (rule two_digits)
qed

lemma low_two:
  fixes x :: nat
  shows "x mod 100 div 10 mod 10 = x div 10 mod 10" and "x mod 100 mod 10 = x mod 10"
proof -
  have m: "x mod 100 = 10 * (x div 10 mod 10) + x mod 10"
    using mod_mult2_eq [of x 10 10] by simp
  show "x mod 100 div 10 mod 10 = x div 10 mod 10" unfolding m by simp
  show "x mod 100 mod 10 = x mod 10" unfolding m by simp
qed

lemma pad4_inj: "a < 10000 \<Longrightarrow> b < 10000 \<Longrightarrow> pad4 a = pad4 b \<Longrightarrow> a = b"
proof -
  assume a: "a < 10000" and b: "b < 10000" and "pad4 a = pad4 b"
  then have "digit (a div 1000) = digit (b div 1000)" "digit (a div 100) = digit (b div 100)"
    "digit (a div 10) = digit (b div 10)" "digit a = digit b"
    by (simp_all add: pad4_def)
  then have d: "a div 1000 mod 10 = b div 1000 mod 10" "a div 100 mod 10 = b div 100 mod 10"
    "a div 10 mod 10 = b div 10 mod 10" "a mod 10 = b mod 10"
    by (auto dest: digit_inj)
  have hi: "a div 100 = b div 100"
  proof (rule two_digits)
    show "a div 100 < 100" "b div 100 < 100" using a b by simp_all
    have "a div 100 div 10 = a div 1000" "b div 100 div 10 = b div 1000"
      by (simp_all add: div_mult2_eq [symmetric])
    with d(1) show "a div 100 div 10 mod 10 = b div 100 div 10 mod 10" by simp
    show "a div 100 mod 10 = b div 100 mod 10" by (rule d(2))
  qed
  have lo: "a mod 100 = b mod 100"
  proof (rule two_digits)
    show "a mod 100 < 100" "b mod 100 < 100" by simp_all
    have "a mod 100 div 10 mod 10 = a div 10 mod 10" "b mod 100 div 10 mod 10 = b div 10 mod 10"
      by (rule low_two)+
    with d(3) show "a mod 100 div 10 mod 10 = b mod 100 div 10 mod 10" by simp
    have "a mod 100 mod 10 = a mod 10" "b mod 100 mod 10 = b mod 10"
      by (rule low_two)+
    with d(4) show "a mod 100 mod 10 = b mod 100 mod 10" by simp
  qed
  have "a = 100 * (a div 100) + a mod 100" "b = 100 * (b div 100) + b mod 100" by simp_all
  with hi lo show ?thesis by metis
qed

lemma stamp_compact_inj:
  assumes "valid_time t" and "valid_time t'" and eq: "stamp_compact t = stamp_compact t'"
  shows "second_of t = second_of t'"
proof -
  from eq have p: "pad4 (dt_year t) = pad4 (dt_year t')" "pad2 (dt_month t) = pad2 (dt_month t')"
    "pad2 (dt_day t) = pad2 (dt_day t')" "pad2 (dt_hour t) = pad2 (dt_hour t')"
    "pad2 (dt_minute t) = pad2 (dt_minute t')" "pad2 (dt_second t) = pad2 (dt_second t')"
    by (simp_all add: stamp_compact_def pad2_def pad4_def)
  from assms(1,2) have "dt_year t < 10000" "dt_year t' < 10000"
    "dt_month t < 100" "dt_month t' < 100" "dt_day t < 100" "dt_day t' < 100"
    "dt_hour t < 100" "dt_hour t' < 100" "dt_minute t < 100" "dt_minute t' < 100"
    "dt_second t < 100" "dt_second t' < 100"
    by (simp_all add: valid_time_def)
  with p have "dt_year t = dt_year t'" "dt_month t = dt_month t'" "dt_day t = dt_day t'"
    "dt_hour t = dt_hour t'" "dt_minute t = dt_minute t'" "dt_second t = dt_second t'"
    by (blast intro: pad4_inj pad2_inj)+
  then show ?thesis by (simp add: second_of_def)
qed


lemma crowded_world_fields:
  "cwd crowded_world = repo_dir"
  "fs crowded_world = sample_files @
     [(repo_dir @ [''backups''], Dir), (earlier_snapshot, Dir),
      (earlier_snapshot @ [''CHANGELOG.md''], File ''earlier'')]"
  "ai crowded_world = sample_service"
  "ai_calls crowded_world = 0"
  "clock crowded_world = (\<lambda>n. sample_time)"
  "clock_reads crowded_world = 0"
  by (simp_all add: crowded_world_def sample_world_fields)

lemma crowded_diff_text: "fst (git_diff ''HEAD~1'' ''HEAD'' crowded_world) = Inr ''M README.md;''"
  by (simp add: git_diff_def crowded_world_def sample_world_fields sample_repo_def rev_parse_def
        sample_diff_def sample_paths)

lemma crowded_files_facts:
  "\<not> is_file (fs crowded_world) (repo_dir @ [''backups''])"
  "\<not> is_file (fs crowded_world) (repo_dir @ [''backups'', ''20240102_030405''])"
  "absent (fs crowded_world) (repo_dir @ [''backups'', ''20240102_030405'', ''definition''])"
  "map_of (fs crowded_world) (repo_dir @ [''backups'', ''20240102_030405'', ''CHANGELOG.md''])
     = Some (File ''earlier'')"
  "map_of (fs crowded_world) (repo_dir @ definition_tree) = Some Dir"
  by (simp_all add: crowded_world_fields is_file_def absent_def sample_paths earlier_snapshot_def)

text \<open>
  C8, as stated, fails: the directory name has the resolution of a second, and the
  directory, its \<^verbatim>\<open>definition\<close> tree and its changelog are made with
  \<^verbatim>\<open>exist_ok=True\<close>, \<^verbatim>\<open>dirs_exist_ok=True\<close> and \<^verbatim>\<open>open(..., 'w')\<close>. In
  \<^const>\<open>crowded_world\<close> a snapshot of the same second exists, and the creation replaces its
  changelog.
\<close>

theorem earlier_snapshot_overwritten:
  "map_of (fs crowded_world) (earlier_snapshot @ [''CHANGELOG.md'']) = Some (File ''earlier'')
   \<and> map_of (fs (snd (create_backup_with_changelog crowded_world)))
         (earlier_snapshot @ [''CHANGELOG.md''])
       = Some (File (changelog_document sample_time ''Docs added'' ''None'' ''M README.md;''))
   \<and> changelog_document sample_time ''Docs added'' ''None'' ''M README.md;'' \<noteq> ''earlier''"
proof (intro conjI)
  show "map_of (fs crowded_world) (earlier_snapshot @ [''CHANGELOG.md'']) = Some (File ''earlier'')"
    using crowded_files_facts(4) by (simp add: earlier_snapshot_def)
  have "map_of (fs (snd (create_backup_with_changelog crowded_world)))
         (repo_dir @ [''backups'', ''20240102_030405'', ''CHANGELOG.md''])
       = Some (File (changelog_document sample_time ''Docs added'' ''None'' ''M README.md;''))"
    using create_backup_ok [of crowded_world "''M README.md;''"
      "[(''changelog'', JStr ''Docs added''), (''impact'', JStr ''None''),
        (''commit_message'', JStr ''Document measures'')]"
      "''Docs added''" "''None''" "JStr ''Document measures''" "''20240102_030405''"]
      crowded_diff_text crowded_files_facts
    by (simp add: crowded_world_fields(1,3,4,5,6) sample_changes_reply stamp_sample)
  then show "map_of (fs (snd (create_backup_with_changelog crowded_world)))
         (earlier_snapshot @ [''CHANGELOG.md''])
       = Some (File (changelog_document sample_time ''Docs added'' ''None'' ''M README.md;''))"
    by (simp add: earlier_snapshot_def)
  show "changelog_document sample_time ''Docs added'' ''None'' ''M README.md;'' \<noteq> ''earlier''"
    by (simp add: changelog_document_def changelog_header_def)
qed

text \<open>
  C8, amended. The identity of a snapshot is its capture time to the second: two valid
  times with the same directory name agree on year, month, day, hour, minute and second.
  And a creation changes nothing outside its own directory: every node that is not in
  \<^verbatim>\<open>backups/<its timestamp>\<close> is after the call what it was before, whatever the call
  returns or raises. So the snapshots of other seconds are never written to.
\<close>

theorem snapshots_of_other_seconds_untouched:
  fixes w :: "'r world"
  shows "(valid_time t \<and> valid_time t' \<and> stamp_compact t = stamp_compact t'
            \<longrightarrow> second_of t = second_of t')
       \<and> (map_of (fs w) p = Some n
            \<and> below (cwd w @ [''backups'', stamp_compact (clock w (clock_reads w))]) p = None
            \<longrightarrow> map_of (fs (snd (create_backup_with_changelog w))) p = Some n)"
  using stamp_compact_inj [of t t'] create_backup_keeps [of w p n] by blast

theorem snapshots_of_other_seconds_untouched_witness:
  "valid_time sample_time \<and> valid_time (sample_time\<lparr>dt_microsecond := 5\<rparr>)
   \<and> stamp_compact sample_time = stamp_compact (sample_time\<lparr>dt_microsecond := 5\<rparr>)
   \<and> second_of sample_time = second_of (sample_time\<lparr>dt_microsecond := 5\<rparr>)
   \<and> map_of (fs archived_world) (older_snapshot @ [''CHANGELOG.md'']) = Some (File ''older'')
   \<and> below (cwd archived_world @
               [''backups'', stamp_compact (clock archived_world (clock_reads archived_world))])
         (older_snapshot @ [''CHANGELOG.md'']) = None
   \<and> map_of (fs (snd (create_backup_with_changelog archived_world)))
         (older_snapshot @ [''CHANGELOG.md'']) = Some (File ''older'')"
proof -
  have v: "valid_time sample_time" "valid_time (sample_time\<lparr>dt_microsecond := 5\<rparr>)"
    by (simp_all add: valid_time_def sample_time_def)
  have s: "stamp_compact sample_time = stamp_compact (sample_time\<lparr>dt_microsecond := 5\<rparr>)"
    by (simp add: stamp_compact_def)
  have h: "map_of (fs archived_world) (older_snapshot @ [''CHANGELOG.md'']) = Some (File ''older'')"
    by (simp add: archived_world_def sample_paths older_snapshot_def)
  have b: "below (cwd archived_world @
               [''backups'', stamp_compact (clock archived_world (clock_reads archived_world))])
         (older_snapshot @ [''CHANGELOG.md'']) = None"
    by (simp add: archived_world_def sample_world_fields stamp_sample older_snapshot_def
          below_None_iff)
  note t = snapshots_of_other_seconds_untouched [of sample_time "sample_time\<lparr>dt_microsecond := 5\<rparr>"
      archived_world "older_snapshot @ [''CHANGELOG.md'']" "File ''older''"]
  from t v s h b show ?thesis by (intro conjI) (simp_all only: simp_thms)
qed


section \<open>The session and the commit\<close>

lemmas run_defs = bind_run_apply ret_def pure_py_def bind_py_def emit_def request_def call_tool_def
  messages_create_def now_def git_diff_def git_add_def git_commit_def with_session_def

lemmas program_defs = connect_to_model_def connect_request_def analyze_measure_with_ai_def
  analyze_tmdl_changes_def measure_tool_def list_request_def get_request_def update_definition_def
  update_request_def document_measure_def list_measures_def auto_document_measures_def
  create_backup_with_changelog_def export_request_def main_def

lemmas store_defs = store_server_def measure_operations_def field_def listed_def detailed_def
  named_def annotation_def annotate_def apply_update_def write_files_def

lemmas sample_defs = sample_store_def undocumented_def sample_service_def measure_reply_def
  changes_reply_def sample_repo_def sample_diff_def sample_tmdl_def rev_parse_def worktree_def
  model_path_def

text \<open>
  C7 fails on the code. \<^verbatim>\<open>connect_to_model\<close> returns the session from inside its two
  \<^verbatim>\<open>async with\<close> blocks, so whenever it returns, the session and its transport have
  been released: the last event is the exit, and the handle the caller gets is closed.
\<close>

theorem connect_to_model_releases_session:
  assumes "connect_to_model p w = (Inr s, w')"
  shows "\<not> session_open w' \<and> last (trace w') = SessionExited"
  using assms
  by (auto simp add: connect_to_model_def bind_run_apply with_session_def
        split: prod.splits sum.splits)

theorem connect_to_model_releases_session_witness:
  "fst (connect_to_model model_path sample_world) = Inr ()
   \<and> \<not> session_open (snd (connect_to_model model_path sample_world))
   \<and> last (trace (snd (connect_to_model model_path sample_world))) = SessionExited"
proof -
  have f: "fst (connect_to_model model_path sample_world) = Inr ()"
    by (simp add: run_defs program_defs store_defs sample_defs sample_world_fields)
  then have "connect_to_model model_path sample_world
               = (Inr (), snd (connect_to_model model_path sample_world))"
    by (simp add: prod_eq_iff)
  from connect_to_model_releases_session [OF this] f show ?thesis by simp
qed

text \<open>
  In a run, every request of the documentation phase is therefore made on a released
  session; with a server that refuses such requests, \<^verbatim>\<open>main\<close> stops at the first one.
\<close>

lemma released_session_is_used:
  "fst (main strict_world) = Inl ClosedResourceError
   \<and> concat (map session_step_of (trace (snd (main strict_world)))) =
       [Enter, Use True ''initialize'', Use True ''powerbi-model_connection_operations'', Exit,
        Use False ''powerbi-model_measure_operations'']"
  by (simp add: run_defs program_defs store_defs sample_defs strict_world_def sample_world_fields)








section \<open>The change set\<close>

lemma prompts_append [simp]: "prompts (a @ b) = prompts a @ prompts b"
  by (simp add: prompts_def)

lemma silent_bind:
  assumes "silent m" and "\<And>x. silent (f x)"
  shows "silent (bind_run m f)"
  unfolding silent_def
proof
  fix w
  obtain r w' where mw: "m w = (r, w')" by (cases "m w")
  from assms(1) mw have k1: "prompts (trace w') = prompts (trace w)"
    unfolding silent_def by (metis snd_conv)
  show "prompts (trace (snd (bind_run m f w))) = prompts (trace w)"
  proof (cases r)
    case (Inl e)
    with mw k1 show ?thesis by (simp add: bind_run_def)
  next
    case (Inr x)
    from assms(2) [of x] have "prompts (trace (snd (f x w'))) = prompts (trace w')"
      unfolding silent_def by blast
    with Inr mw k1 show ?thesis by (simp add: bind_run_def)
  qed
qed

lemma silent_simple:
  "silent (pure_py r)" "silent (ret x)" "silent now" "silent (emit (Printed msg))"
  "silent (mkdir p)" "silent (copytree a b)" "silent (open_w p)" "silent (fwrite p s)"
  by (simp_all add: silent_def pure_py_def ret_def now_def emit_def mkdir_apply copytree_apply
        open_w_def fwrite_def Let_def prompts_def split: option.splits node.splits)

lemma silent_write_changelog: "silent (write_changelog p a x)"
  unfolding write_changelog_def by (intro silent_bind silent_simple)

lemma silent_snapshot_into: "silent (snapshot_into d a x)"
  unfolding snapshot_into_def Let_def
  by (intro silent_bind silent_simple silent_write_changelog)

lemma snapshot_into_prompts:
  "concat (map prompt_of (trace (snd (snapshot_into d a x w)))) = concat (map prompt_of (trace w))"
  using silent_snapshot_into [of d a x] by (auto simp: silent_def prompts_def)

lemma create_backup_prompts:
  "prompts (trace (snd (create_backup_with_changelog w))) =
     prompts (trace w) @
     (case (rev_parse (repo w) ''HEAD~1'', rev_parse (repo w) ''HEAD'') of
        (Some older, Some newer) \<Rightarrow>
          if diff_text w older newer = [] then [] else [ChangesPrompt (diff_text w older newer)]
      | _ \<Rightarrow> [])"
  by (simp add: create_backup_with_changelog_def bind_run_def git_diff_def emit_def ret_def
        analyze_tmdl_changes_def messages_create_def pure_py_def now_def snapshot_into_prompts
        prompts_def split: option.splits sum.splits prod.splits)

text \<open>
  C4 fails on the code. Whatever world \<^verbatim>\<open>create_backup_with_changelog\<close> is called in, the
  change set it hands to the analysis is \<^verbatim>\<open>git diff HEAD~1 HEAD\<close>, the difference between
  the last two commits: it sends that text when it is not empty and nothing otherwise, and
  neither the files of the working directory nor the model enter into it. In
  \<^const>\<open>exported_world\<close> the working directory holds the freshly exported
  \<^verbatim>\<open>measures.tmdl\<close> with the new description and the last commit holds the old file, and
  the change set analysed is the \<^verbatim>\<open>README.md\<close> change of the last commit.
\<close>

theorem analysed_changes_are_the_last_commit:
  "prompts (trace (snd (create_backup_with_changelog w))) =
     prompts (trace w) @
     (case (rev_parse (repo w) ''HEAD~1'', rev_parse (repo w) ''HEAD'') of
        (Some older, Some newer) \<Rightarrow>
          if diff_text w older newer = [] then [] else [ChangesPrompt (diff_text w older newer)]
      | _ \<Rightarrow> [])
   \<and> map_of (fs exported_world) (repo_dir @ tmdl_file) = Some (File ''Total:Sum of sales;'')
   \<and> map_option (\<lambda>head. map_of head tmdl_file) (rev_parse (repo exported_world) ''HEAD'')
       = Some (Some ''Total:;'')
   \<and> prompts (trace (snd (create_backup_with_changelog exported_world)))
       = [ChangesPrompt ''M README.md;'']"
proof -
  have fields: "repo exported_world = sample_repo" "diff_text exported_world = sample_diff"
    "trace exported_world = []"
    "fs exported_world = [(repo_dir, Dir), (repo_dir @ [''Dataset.SemanticModel''], Dir),
            (repo_dir @ definition_tree, Dir),
            (repo_dir @ tmdl_file, File ''Total:Sum of sales;'')]"
    by (simp_all add: exported_world_def sample_world_fields)
  have a: "map_of (fs exported_world) (repo_dir @ tmdl_file) = Some (File ''Total:Sum of sales;'')"
    by (simp add: fields sample_paths)
  have b: "map_option (\<lambda>head. map_of head tmdl_file) (rev_parse (repo exported_world) ''HEAD'')
       = Some (Some ''Total:;'')"
    by (simp add: fields sample_repo_def rev_parse_def sample_paths)
  have c: "prompts (trace (snd (create_backup_with_changelog exported_world)))
       = [ChangesPrompt ''M README.md;'']"
    unfolding create_backup_prompts
    by (simp add: fields sample_repo_def rev_parse_def sample_diff_def sample_paths prompts_def)
  from create_backup_prompts [of w] a b c show ?thesis by (intro conjI)
qed


section \<open>Malformed answers and failing steps\<close>

lemma sparse_world_fields:
  "remote sparse_world = sample_store" "server sparse_world = store_server"
  "session_open sparse_world = False" "ai sparse_world = (\<lambda>n p. Inr (Encoded sparse_reply))"
  "ai_calls sparse_world = 0" "trace sparse_world = []" "fs sparse_world = sample_files"
  by (simp_all add: sparse_world_def sample_world_fields)

text \<open>
  C5, as stated, fails: the adapters return whatever \<^verbatim>\<open>json.loads\<close> produced and check
  no key. A response with only \<^verbatim>\<open>description\<close> and \<^verbatim>\<open>technical_notes\<close> is returned
  without error, its missing \<^verbatim>\<open>display_folder\<close> is replaced by the empty string in the
  update, and the measure is documented.
\<close>

theorem sparse_reply_accepted:
  "fst (analyze_measure_with_ai (JStr ''Total'') (JStr ''SUM(x)'') sparse_world) = Inr sparse_reply
   \<and> field ''issues'' sparse_reply = None
   \<and> field ''display_folder'' sparse_reply = None
   \<and> bind_py (update_definition (JStr ''Total'') sparse_reply) (\<lambda>d. subscript d ''displayFolder'')
       = Inr (JStr [])
   \<and> fst (auto_document_measures ''TMDL'' sparse_world)
       = Inr [JObj [(''measure'', JStr ''Total''), (''description'', JStr ''Sum of sales'')]]"
  by (simp add: run_defs program_defs store_defs sample_defs sparse_world_fields sparse_reply_def)

text \<open>
  C5, amended. \<^verbatim>\<open>analyze_measure_with_ai\<close> and \<^verbatim>\<open>analyze_tmdl_changes\<close> fail exactly
  when the request to the service raises or the text of the response is not JSON, and
  return the decoded value otherwise, whatever its keys. The controller then reads the
  keys: a missing \<^verbatim>\<open>description\<close> or \<^verbatim>\<open>technical_notes\<close> raises \<^verbatim>\<open>KeyError\<close>, a missing
  \<^verbatim>\<open>display_folder\<close> becomes the empty string, and \<^verbatim>\<open>issues\<close> is not read.
\<close>

theorem adapters_return_any_json:
  "fst (analyze_measure_with_ai name dax w)
     = bind_py (ai w (ai_calls w) (MeasurePrompt name dax)) loads_text
   \<and> fst (analyze_tmdl_changes diff w)
     = bind_py (ai w (ai_calls w) (ChangesPrompt diff)) loads_text
   \<and> update_definition name (JObj kvs) =
       (case map_of kvs ''description'' of
          None \<Rightarrow> Inl (KeyError ''description'')
        | Some description \<Rightarrow>
            (case map_of kvs ''technical_notes'' of
               None \<Rightarrow> Inl (KeyError ''technical_notes'')
             | Some technical_notes \<Rightarrow>
                 Inr (JObj [(''name'', name),
                            (''description'', description),
                            (''displayFolder'',
                               case map_of kvs ''display_folder'' of
                                 None \<Rightarrow> JStr [] | Some folder \<Rightarrow> folder),
                            (''annotations'',
                               JArr [JObj [(''key'', JStr ''AI_Generated_Docs''),
                                           (''value'', JStr ''true'')],
                                     JObj [(''key'', JStr ''Technical_Notes''),
                                           (''value'', technical_notes)]])])))"
  by (auto simp add: analyze_measure_with_ai_def analyze_tmdl_changes_def bind_run_def
        messages_create_def pure_py_def bind_py_def update_definition_def
        split: sum.splits option.splits)

theorem adapters_return_any_json_witness:
  "fst (analyze_measure_with_ai (JStr ''Total'') (JStr ''SUM(x)'') sparse_world) = Inr sparse_reply
   \<and> fst (analyze_tmdl_changes ''x'' (sparse_world\<lparr>ai := (\<lambda>n p. Inr Malformed)\<rparr>))
       = Inl JSONDecodeError"
  using adapters_return_any_json [of "JStr ''Total''" "JStr ''SUM(x)''" sparse_world]
    adapters_return_any_json [of _ _ "sparse_world\<lparr>ai := (\<lambda>n p. Inr Malformed)\<rparr>" "''x''"]
  by (simp add: sparse_world_fields bind_py_def)

lemma faulty_world_fields:
  "remote faulty_world = sample_store\<lparr>measures := [undocumented ''A'', undocumented ''B'', undocumented ''C''],
                  rejects := [(''Sales'', ''B'')]\<rparr>" "server faulty_world = store_server"
  "session_open faulty_world = False" "ai faulty_world = sample_service"
  "ai_calls faulty_world = 0" "trace faulty_world = []" "fs faulty_world = sample_files"
  by (simp_all add: faulty_world_def sample_world_fields)

lemma reporting_world_fields:
  "remote reporting_world = sample_store\<lparr>measures := [undocumented ''A'', undocumented ''B'', undocumented ''C''],
                  rejects := [(''Sales'', ''B'')]\<rparr>" "server reporting_world = reporting store_server"
  "session_open reporting_world = False" "ai reporting_world = sample_service"
  "ai_calls reporting_world = 0" "trace reporting_world = []" "fs reporting_world = sample_files"
  by (simp_all add: reporting_world_def faulty_world_fields)

text \<open>
  C1, as stated, fails: there is no \<^verbatim>\<open>try\<close> in \<^verbatim>\<open>auto_document_measures\<close>, and the
  result of the update call is thrown away. In \<^const>\<open>faulty_world\<close> the update of the
  second of three measures is rejected by an exception: the error leaves the method, no list
  is returned, the first measure has been documented and the third is never looked at. In
  \<^const>\<open>reporting_world\<close> the same rejection comes back as the result of the call: the
  method returns all three measures as documented, the rejected one among them, while its
  description in the model is still empty.
\<close>

theorem failure_escapes_the_controller:
  "fst (auto_document_measures ''TMDL'' faulty_world) = Inl (ToolError ''UpdateError'')
   \<and> map m_description (measures (remote (snd (auto_document_measures ''TMDL'' faulty_world))))
       = [''Sum of sales'', [], []]
   \<and> fst (auto_document_measures ''TMDL'' reporting_world)
       = Inr [JObj [(''measure'', JStr ''A''), (''description'', JStr ''Sum of sales'')],
              JObj [(''measure'', JStr ''B''), (''description'', JStr ''Sum of sales'')],
              JObj [(''measure'', JStr ''C''), (''description'', JStr ''Sum of sales'')]]
   \<and> map m_description (measures (remote (snd (auto_document_measures ''TMDL'' reporting_world))))
       = [''Sum of sales'', [], ''Sum of sales'']"
proof (intro conjI)
  show "fst (auto_document_measures ''TMDL'' faulty_world) = Inl (ToolError ''UpdateError'')"
    by (simp add: run_defs program_defs store_defs sample_defs faulty_world_fields)
  show "map m_description (measures (remote (snd (auto_document_measures ''TMDL'' faulty_world))))
       = [''Sum of sales'', [], []]"
    by (simp add: run_defs program_defs store_defs sample_defs faulty_world_fields)
  show "fst (auto_document_measures ''TMDL'' reporting_world)
       = Inr [JObj [(''measure'', JStr ''A''), (''description'', JStr ''Sum of sales'')],
              JObj [(''measure'', JStr ''B''), (''description'', JStr ''Sum of sales'')],
              JObj [(''measure'', JStr ''C''), (''description'', JStr ''Sum of sales'')]]"
    by (simp add: run_defs program_defs store_defs sample_defs reporting_world_fields reporting_def)
  show "map m_description (measures (remote (snd (auto_document_measures ''TMDL'' reporting_world))))
       = [''Sum of sales'', [], ''Sum of sales'']"
    by (simp add: run_defs program_defs store_defs sample_defs reporting_world_fields reporting_def)
qed

lemma for_measures_append:
  "for_measures c (xs @ ys) acc w =
     (case for_measures c xs acc w of
        (Inl e, w') \<Rightarrow> (Inl e, w')
      | (Inr acc', w') \<Rightarrow> for_measures c ys acc' w')"
  by (induction xs arbitrary: acc w) (auto simp: bind_run_def ret_def split: prod.splits sum.splits)

lemma document_measure_steps:
  assumes "py_get item ''description'' JNull = Inr d" and "\<not> truthy d"
  shows "document_measure c item acc =
           bind_run (fetch_measure c item) (\<lambda>dax.
           bind_run (analyze_measure item dax) (\<lambda>ai_analysis.
           bind_run (update_measure c item ai_analysis) (\<lambda>updated.
           report_measure item ai_analysis acc)))"
proof (rule ext)
  fix w :: "'a world"
  show "document_measure c item acc w =
           bind_run (fetch_measure c item) (\<lambda>dax.
           bind_run (analyze_measure item dax) (\<lambda>ai_analysis.
           bind_run (update_measure c item ai_analysis) (\<lambda>updated.
           report_measure item ai_analysis acc))) w"
    using assms
    by (cases "subscript item ''tableName''"; cases "subscript item ''name''")
       (simp_all add: document_measure_def fetch_measure_def analyze_measure_def
          update_measure_def report_measure_def bind_run_def pure_py_def
          split: prod.splits sum.splits)
qed

lemma report_measure_result:
  assumes "update_measure c item a w3 = (Inr r, w4)"
  shows "\<exists>name description.
           subscript item ''name'' = Inr name \<and> subscript a ''description'' = Inr description
         \<and> report_measure item a acc w4 =
             (Inr (acc @ [JObj [(''measure'', name), (''description'', description)]]),
              w4\<lparr>trace := trace w4 @ [Printed (Documented name)]\<rparr>)"
  using assms
  by (auto simp add: update_measure_def report_measure_def bind_run_def pure_py_def emit_def ret_def
        update_request_def update_definition_def bind_py_def
        split: prod.splits sum.splits)

lemma request_raises_keeps:
  assumes "server w = store_server" and "request r w = (Inl e, w')"
  shows "remote w' = remote w"
  using assms
  by (auto simp add: request_def store_server_def measure_operations_def Let_def
        split: rpc.splits if_splits option.splits prod.splits json.splits)

lemma fetch_measure_keeps:
  assumes "server w = store_server" and "fetch_measure c item w = (res, w')"
  shows "remote w' = remote w \<and> server w' = store_server"
  using assms
  by (auto simp add: fetch_measure_def bind_run_def pure_py_def call_tool_def request_def
        store_server_def measure_operations_def get_request_def measure_tool_def field_def Let_def
        split: sum.splits prod.splits if_splits option.splits)

lemma analyze_measure_keeps:
  assumes "analyze_measure item dax w = (res, w')"
  shows "remote w' = remote w \<and> server w' = server w"
  using assms
  by (auto simp add: analyze_measure_def analyze_measure_with_ai_def bind_run_def pure_py_def
        messages_create_def split: sum.splits prod.splits)

lemma update_measure_raises_keeps:
  assumes "server w = store_server" and "update_measure c item a w = (Inl e, w')"
  shows "remote w' = remote w"
  using assms request_raises_keeps [of w _ e w']
  by (auto simp add: update_measure_def bind_run_def pure_py_def call_tool_def
        split: sum.splits prod.splits)

lemma run_reaches_item:
  assumes "list_measures c w = (Inr (before @ item # after), w0)"
    and "for_measures c before [] w0 = (Inr documented, w1)"
  shows "auto_document_measures c w =
           bind_run (document_measure c item documented) (for_measures c after) w1"
  using assms
  by (simp add: auto_document_measures_def bind_run_Inr for_measures_append)

text \<open>
  C1, amended. Take a listing, an element of it that has no description, and a run in which
  the elements before it were processed without an exception. When the fetch of that
  element raises, or its analysis raises, or its update raises, \<^verbatim>\<open>auto_document_measures\<close>
  raises the same exception and ends in the world that step left: no list is returned,
  nothing is recorded, nothing done before is undone and nothing is requested for the
  elements after it. When the update call returns, whatever it returns, the element is
  appended to the documented measures and the loop goes on with the elements after it.
\<close>

theorem failing_step_stops_the_run:
  assumes "list_measures c w = (Inr (before @ item # after), w0)"
    and "for_measures c before [] w0 = (Inr documented, w1)"
    and "py_get item ''description'' JNull = Inr d" and "\<not> truthy d"
  shows "(fetch_measure c item w1 = (Inl e, w2) \<longrightarrow>
            auto_document_measures c w = (Inl e, w2))
       \<and> (fetch_measure c item w1 = (Inr dax, w2) \<and>
          analyze_measure item dax w2 = (Inl e', w3) \<longrightarrow>
            auto_document_measures c w = (Inl e', w3))
       \<and> (fetch_measure c item w1 = (Inr dax, w2) \<and>
          analyze_measure item dax w2 = (Inr a, w3') \<and>
          update_measure c item a w3' = (Inl e'', w4) \<longrightarrow>
            auto_document_measures c w = (Inl e'', w4))
       \<and> (fetch_measure c item w1 = (Inr dax, w2) \<and>
          analyze_measure item dax w2 = (Inr a, w3') \<and>
          update_measure c item a w3' = (Inr r, w4') \<longrightarrow>
            (\<exists>name description.
               subscript item ''name'' = Inr name \<and>
               subscript a ''description'' = Inr description \<and>
               auto_document_measures c w =
                 for_measures c after
                   (documented @ [JObj [(''measure'', name), (''description'', description)]])
                   (w4'\<lparr>trace := trace w4' @ [Printed (Documented name)]\<rparr>)))"
proof -
  note reach = run_reaches_item [OF assms(1,2)]
  note steps = document_measure_steps [OF assms(3,4), of c documented]
  have 1: "auto_document_measures c w = (Inl e, w2)"
    if "fetch_measure c item w1 = (Inl e, w2)"
    using that by (simp add: reach steps bind_run_def)
  have 2: "auto_document_measures c w = (Inl e', w3)"
    if "fetch_measure c item w1 = (Inr dax, w2)" "analyze_measure item dax w2 = (Inl e', w3)"
    using that by (simp add: reach steps bind_run_def)
  have 3: "auto_document_measures c w = (Inl e'', w4)"
    if "fetch_measure c item w1 = (Inr dax, w2)" "analyze_measure item dax w2 = (Inr a, w3')"
      "update_measure c item a w3' = (Inl e'', w4)"
    using that by (simp add: reach steps bind_run_def)
  have 4: "\<exists>name description.
               subscript item ''name'' = Inr name \<and>
               subscript a ''description'' = Inr description \<and>
               auto_document_measures c w =
                 for_measures c after
                   (documented @ [JObj [(''measure'', name), (''description'', description)]])
                   (w4'\<lparr>trace := trace w4' @ [Printed (Documented name)]\<rparr>)"
    if f: "fetch_measure c item w1 = (Inr dax, w2)" and a: "analyze_measure item dax w2 = (Inr a, w3')"
      and u: "update_measure c item a w3' = (Inr r, w4')"
  proof -
    from report_measure_result [OF u, of documented] obtain name description where
      n: "subscript item ''name'' = Inr name" and de: "subscript a ''description'' = Inr description"
      and rep: "report_measure item a documented w4' =
             (Inr (documented @ [JObj [(''measure'', name), (''description'', description)]]),
              w4'\<lparr>trace := trace w4' @ [Printed (Documented name)]\<rparr>)"
      by blast
    have "auto_document_measures c w =
                 for_measures c after
                   (documented @ [JObj [(''measure'', name), (''description'', description)]])
                   (w4'\<lparr>trace := trace w4' @ [Printed (Documented name)]\<rparr>)"
      by (simp add: reach steps bind_run_def f a u rep)
    with n de show ?thesis by blast
  qed
  from 1 2 3 4 show ?thesis by blast
qed

theorem failing_step_stops_the_run_witness:
  "fst (list_measures ''TMDL'' faulty_world)
     = Inr ([listed (undocumented ''A'')] @ listed (undocumented ''B'') # [listed (undocumented ''C'')])
   \<and> fst (for_measures ''TMDL'' [listed (undocumented ''A'')] []
            (snd (list_measures ''TMDL'' faulty_world)))
       = Inr [JObj [(''measure'', JStr ''A''), (''description'', JStr ''Sum of sales'')]]
   \<and> fst (auto_document_measures ''TMDL'' faulty_world) = Inl (ToolError ''UpdateError'')"
proof -
  let ?a = "[JObj [(''measure'', JStr ''A''), (''description'', JStr ''Sum of sales'')]]"
  let ?A = "listed (undocumented ''A'')" and ?B = "listed (undocumented ''B'')"
  let ?C = "listed (undocumented ''C'')"
  let ?w0 = "snd (list_measures ''TMDL'' faulty_world)"
  let ?w1 = "snd (for_measures ''TMDL'' [?A] [] ?w0)"
  let ?w2 = "snd (fetch_measure ''TMDL'' ?B ?w1)"
  let ?w3 = "snd (analyze_measure ?B (JStr ''SUM(x)'') ?w2)"
  let ?w4 = "snd (update_measure ''TMDL'' ?B measure_reply ?w3)"
  have f0: "fst (list_measures ''TMDL'' faulty_world) = Inr ([?A] @ ?B # [?C])"
    by (simp add: run_defs program_defs store_defs sample_defs faulty_world_fields)
  have f1: "fst (for_measures ''TMDL'' [?A] [] ?w0) = Inr ?a"
    by (simp add: run_defs program_defs store_defs sample_defs faulty_world_fields)
  have d: "py_get ?B ''description'' JNull = Inr (JStr [])" "\<not> truthy (JStr [])"
    by (simp_all add: listed_def undocumented_def)
  have f2: "fst (fetch_measure ''TMDL'' ?B ?w1) = Inr (JStr ''SUM(x)'')"
    by (simp add: fetch_measure_def run_defs program_defs store_defs sample_defs
          faulty_world_fields)
  have f3: "fst (analyze_measure ?B (JStr ''SUM(x)'') ?w2) = Inr measure_reply"
    by (simp add: analyze_measure_def fetch_measure_def run_defs program_defs store_defs
          sample_defs faulty_world_fields)
  have f4: "fst (update_measure ''TMDL'' ?B measure_reply ?w3) = Inl (ToolError ''UpdateError'')"
    by (simp add: update_measure_def analyze_measure_def fetch_measure_def run_defs program_defs
          store_defs sample_defs faulty_world_fields)
  note t = failing_step_stops_the_run [OF pair_of_fst [OF f0] pair_of_fst [OF f1] d,
      where dax = "JStr ''SUM(x)''" and ?w2.0 = ?w2 and a = measure_reply and w3' = ?w3
        and e'' = "ToolError ''UpdateError''" and ?w4.0 = ?w4]
  have "auto_document_measures ''TMDL'' faulty_world = (Inl (ToolError ''UpdateError''), ?w4)"
    by (rule mp [OF conjunct1 [OF conjunct2 [OF conjunct2 [OF t]]]])
       (intro conjI pair_of_fst f2 f3 f4)
  then have "fst (auto_document_measures ''TMDL'' faulty_world) = Inl (ToolError ''UpdateError'')"
    by (simp only: fst_conv)
  with f0 f1 show ?thesis by (intro conjI)
qed

text \<open>
  Against the model server, an element whose processing raises leaves the model as the
  elements before it left it.
\<close>

lemma failing_entity_leaves_the_model:
  fixes w1 :: "store world"
  assumes srv: "server w1 = store_server"
    and run: "document_measure c item acc w1 = (Inl e, w2)"
  shows "remote w2 = remote w1"
proof (cases "py_get item ''description'' JNull")
  case (Inl x)
  with run show ?thesis by (simp add: document_measure_def bind_run_def pure_py_def)
next
  case (Inr d)
  show ?thesis
  proof (cases "truthy d")
    case True
    with run Inr show ?thesis by (simp add: document_measure_def bind_run_def pure_py_def ret_def)
  next
    case False
    note steps = document_measure_steps [OF Inr False, of c acc]
    obtain r1 wa where f: "fetch_measure c item w1 = (r1, wa)" by (cases "fetch_measure c item w1")
    from fetch_measure_keeps [OF srv f] have ka: "remote wa = remote w1" "server wa = store_server"
      by simp_all
    show ?thesis
    proof (cases r1)
      case (Inl x)
      with run f ka show ?thesis by (simp add: steps bind_run_def)
    next
      case dax: (Inr dax)
      obtain r2 wb where a: "analyze_measure item dax wa = (r2, wb)"
        by (cases "analyze_measure item dax wa")
      from analyze_measure_keeps [OF a] ka have kb: "remote wb = remote w1" "server wb = store_server"
        by simp_all
      show ?thesis
      proof (cases r2)
        case (Inl x)
        with run f dax a kb show ?thesis by (simp add: steps bind_run_def)
      next
        case an: (Inr an)
        obtain r3 wc where u: "update_measure c item an wb = (r3, wc)"
          by (cases "update_measure c item an wb")
        show ?thesis
        proof (cases r3)
          case (Inl x)
          with update_measure_raises_keeps [OF kb(2), of c item an x wc] u run f dax a an kb
          show ?thesis by (simp add: steps bind_run_def)
        next
          case (Inr r)
          with report_measure_result [of c item an wb r wc acc] u
          obtain res wd where "report_measure item an acc wc = (Inr res, wd)" by blast
          with run f dax a an u Inr show ?thesis by (simp add: steps bind_run_def)
        qed
      qed
    qed
  qed
qed


section \<open>Running twice\<close>




























end
